theory Spec2Isabelle
  imports Complex_Main "HOL-Library.Sublist"
begin

section \<open>Census demographics pipeline: data model\<close>

text \<open>
  The repository is a set of Python scripts over pandas tables. A table cell is
  a string (everything the statistical API and the shapefile attributes deliver)
  or a number. A number is a value of a numeric column: a finite value (\<open>Fin 0\<close>
  is the zero of an integer column and the positive zero of a float column), the
  negative zero of a float column, the two infinities, or NaN, which pandas uses
  for "missing".
\<close>

datatype fnum = Fin rat | NegZero | PInf | NInf | NaN

datatype cell = Str string | Num fnum

text \<open>The Python exceptions the modelled functions raise, with their message or key.\<close>

datatype error = ValueError string | KeyError string | TypeError

type_synonym series = "cell list"

text \<open>
  A DataFrame is the ordered list of its columns, every column one series of the
  same length. The column labels of a well-formed frame are distinct.
\<close>

type_synonym dataframe = "(string \<times> series) list"

definition columns :: "dataframe \<Rightarrow> string list" where
  "columns df = map fst df"

definition wf_df :: "dataframe \<Rightarrow> nat \<Rightarrow> bool" where
  "wf_df df n = (distinct (columns df) \<and> list_all (\<lambda>p. length (snd p) = n) df)"

text \<open>\<^verbatim>\<open>df[col]\<close>: the column, or KeyError.\<close>

definition getitem :: "dataframe \<Rightarrow> string \<Rightarrow> error + series" where
  "getitem df col = (case map_of df col of None \<Rightarrow> Inl (KeyError col) | Some xs \<Rightarrow> Inr xs)"

text \<open>
  \<^verbatim>\<open>df[col] = xs\<close>: an existing column is replaced where it stands, a new one
  is appended after the others.
\<close>

primrec setitem :: "string \<Rightarrow> series \<Rightarrow> dataframe \<Rightarrow> dataframe" where
  "setitem col xs [] = [(col, xs)]"
| "setitem col xs (p # ps) = (if fst p = col then (col, xs) # ps else p # setitem col xs ps)"

section \<open>Variable catalog (census\_fetch.py)\<close>

text \<open>\<^verbatim>\<open>CensusDataFetcher.VARIABLES\<close>, a dict of dicts in insertion order.\<close>

definition VARIABLES :: "(string \<times> (string \<times> string) list) list" where
  "VARIABLES =
   [(''population'',
       [(''total'', ''B01003_001E''),
        (''density'', ''B01003_001E'')]),
    (''age'',
       [(''median'', ''B01002_001E''),
        (''total'', ''B01001_001E''),
        (''under_18'', ''B01001_003E''),
        (''over_65'', ''B01001_020E'')]),
    (''race'',
       [(''white'', ''B02001_002E''),
        (''black'', ''B02001_003E''),
        (''native'', ''B02001_004E''),
        (''asian'', ''B02001_005E''),
        (''pacific'', ''B02001_006E''),
        (''other'', ''B02001_007E''),
        (''two_or_more'', ''B02001_008E''),
        (''hispanic'', ''B03003_003E'')]),
    (''education'',
       [(''total_25_over'', ''B15003_001E''),
        (''high_school'', ''B15003_017E''),
        (''some_college'', ''B15003_019E''),
        (''associates'', ''B15003_021E''),
        (''bachelors'', ''B15003_022E''),
        (''masters'', ''B15003_023E''),
        (''professional'', ''B15003_024E''),
        (''doctorate'', ''B15003_025E'')]),
    (''income'',
       [(''median_household'', ''B19013_001E''),
        (''per_capita'', ''B19301_001E''),
        (''mean_household'', ''B19025_001E'')]),
    (''housing'',
       [(''total_units'', ''B25001_001E''),
        (''median_value'', ''B25077_001E''),
        (''median_rent'', ''B25064_001E''),
        (''owner_occupied'', ''B25003_002E''),
        (''renter_occupied'', ''B25003_003E'')]),
    (''employment'',
       [(''in_labor_force'', ''B23025_002E''),
        (''employed'', ''B23025_004E''),
        (''unemployed'', ''B23025_005E'')])]"

text \<open>\<^verbatim>\<open>sep.join(xs)\<close> of Python.\<close>

fun join :: "string \<Rightarrow> string list \<Rightarrow> string" where
  "join sep [] = []"
| "join sep [x] = x"
| "join sep (x # y # ys) = x @ sep @ join sep (y # ys)"

definition unknown_category_message :: "string \<Rightarrow> string" where
  "unknown_category_message category =
     ''Unknown category '' @ [CHR 0x27] @ category @ [CHR 0x27] @ ''. Available: ''
       @ join '', '' (map fst VARIABLES)"

definition get_variables_for_category :: "string \<Rightarrow> error + (string \<times> string) list" where
  "get_variables_for_category category =
     (case map_of VARIABLES category of
        None \<Rightarrow> Inl (ValueError (unknown_category_message category))
      | Some entries \<Rightarrow> Inr (map (\<lambda>(name, code). (name, code)) entries))"

section \<open>Numeric columns (pandas float arithmetic)\<close>

text \<open>
  Division and multiplication of float values as IEEE 754 defines them: NaN
  propagates, a zero divisor gives an infinity or NaN and raises nothing, and the
  sign of a zero or an infinity is the exclusive or of the signs of the operands.
  pandas gives the same results for an integer column divided by zero
  (\<^verbatim>\<open>50 / 0 = inf\<close>, \<^verbatim>\<open>0 / 0 = NaN\<close>). The quotient or product of two finite
  values other than zero is rounded to a float; the rounding is the parameter
  \<open>rnd\<close>, which may also give an infinity (overflow) or a zero (underflow).
\<close>

fun is_zero :: "fnum \<Rightarrow> bool" where
  "is_zero (Fin a) = (a = 0)"
| "is_zero NegZero = True"
| "is_zero _ = False"

fun is_inf :: "fnum \<Rightarrow> bool" where
  "is_inf PInf = True"
| "is_inf NInf = True"
| "is_inf _ = False"

fun negative :: "fnum \<Rightarrow> bool" where
  "negative (Fin a) = (a < 0)"
| "negative NegZero = True"
| "negative NInf = True"
| "negative _ = False"

fun val :: "fnum \<Rightarrow> rat" where
  "val (Fin a) = a"
| "val _ = 0"

definition signed_zero :: "bool \<Rightarrow> fnum" where
  "signed_zero neg = (if neg then NegZero else Fin 0)"

definition signed_inf :: "bool \<Rightarrow> fnum" where
  "signed_inf neg = (if neg then NInf else PInf)"

definition float_div :: "(rat \<Rightarrow> fnum) \<Rightarrow> fnum \<Rightarrow> fnum \<Rightarrow> fnum" where
  "float_div rnd x y =
     (if x = NaN \<or> y = NaN then NaN
      else if (is_zero x \<and> is_zero y) \<or> (is_inf x \<and> is_inf y) then NaN
      else if is_inf x \<or> is_zero y then signed_inf (negative x \<noteq> negative y)
      else if is_zero x \<or> is_inf y then signed_zero (negative x \<noteq> negative y)
      else rnd (val x / val y))"

definition float_mul :: "(rat \<Rightarrow> fnum) \<Rightarrow> fnum \<Rightarrow> fnum \<Rightarrow> fnum" where
  "float_mul rnd x y =
     (if x = NaN \<or> y = NaN then NaN
      else if (is_zero x \<and> is_inf y) \<or> (is_inf x \<and> is_zero y) then NaN
      else if is_inf x \<or> is_inf y then signed_inf (negative x \<noteq> negative y)
      else if is_zero x \<or> is_zero y then signed_zero (negative x \<noteq> negative y)
      else rnd (val x * val y))"

text \<open>
  A value of a numeric column as an operand of float arithmetic: a finite value
  other than zero is rounded (an integer column may hold values that no float
  holds), every other value is taken as it is.
\<close>

definition to_float :: "(rat \<Rightarrow> fnum) \<Rightarrow> fnum \<Rightarrow> fnum" where
  "to_float rnd x = (case x of Fin a \<Rightarrow> (if a = 0 then Fin 0 else rnd a) | _ \<Rightarrow> x)"

text \<open>The rounding that changes nothing, for values that a float holds exactly.\<close>

definition exact :: "rat \<Rightarrow> fnum" where
  "exact q = Fin q"

text \<open>
  \<^verbatim>\<open>+\<close> on two numbers of numeric columns; the sum of two finite values is
  taken as it is.
\<close>

definition fadd :: "fnum \<Rightarrow> fnum \<Rightarrow> fnum" where
  "fadd x y =
     (if x = NaN \<or> y = NaN then NaN
      else if is_inf x \<and> is_inf y then (if x = y then x else NaN)
      else if is_inf x then x
      else if is_inf y then y
      else if x = NegZero \<and> y = NegZero then NegZero
      else Fin (val x + val y))"

text \<open>\<^verbatim>\<open>x > 0\<close> on a number: false for NaN, for both zeros and below.\<close>

fun gt0 :: "fnum \<Rightarrow> bool" where
  "gt0 (Fin a) = (0 < a)"
| "gt0 PInf = True"
| "gt0 _ = False"

text \<open>\<^verbatim>\<open>pd.isna\<close>: the missing value of a column is NaN.\<close>

fun isna :: "cell \<Rightarrow> bool" where
  "isna (Num NaN) = True"
| "isna _ = False"

subsection \<open>Text to number\<close>

text \<open>
  \<^verbatim>\<open>pd.to_numeric(xs, errors='coerce')\<close> is library code. Which cells of a
  column read as numbers, and as which numbers, is the parameter \<open>coerce\<close>:
  \<open>coerce xs i\<close> is the number at row i of the converted column, and NaN where
  the cell reads as no number. The number of a cell may depend on the other cells
  of the column (whether the column comes out as integers or as floats). The
  converted column has the rows of the given one, and nothing is raised.
\<close>

definition to_numeric :: "(series \<Rightarrow> nat \<Rightarrow> fnum) \<Rightarrow> series \<Rightarrow> fnum list" where
  "to_numeric coerce xs = map (coerce xs) [0..<length xs]"

text \<open>
  A conversion for the example tables only. It reads a cell by itself: the
  decimal literals that the statistical API emits for counts and dollar amounts
  (digits, with an optional sign and an optional fraction) as their value, any
  other text as NaN. On the integer literals and the words of the example tables
  this is what pandas gives; it is not pandas' reading of other text (an
  exponent, surrounding blanks, the words inf and nan, a negative zero).
\<close>

definition digit_val :: "char \<Rightarrow> nat option" where
  "digit_val c = map_of
     [(CHR ''0'', 0), (CHR ''1'', 1), (CHR ''2'', 2), (CHR ''3'', 3), (CHR ''4'', 4),
      (CHR ''5'', 5), (CHR ''6'', 6), (CHR ''7'', 7), (CHR ''8'', 8), (CHR ''9'', 9)] c"

definition is_digit :: "char \<Rightarrow> bool" where
  "is_digit c = (digit_val c \<noteq> None)"

definition nat_of_digits :: "string \<Rightarrow> nat" where
  "nat_of_digits s = foldl (\<lambda>n c. 10 * n + (case digit_val c of Some d \<Rightarrow> d | None \<Rightarrow> 0)) 0 s"

definition parse_unsigned :: "string \<Rightarrow> rat option" where
  "parse_unsigned s =
     (let ip = takeWhile is_digit s; rest = dropWhile is_digit s
      in case rest of
           [] \<Rightarrow> (if ip = [] then None else Some (of_nat (nat_of_digits ip)))
         | c # fp \<Rightarrow>
             (if c = CHR ''.'' \<and> list_all is_digit fp \<and> (ip \<noteq> [] \<or> fp \<noteq> [])
              then Some (of_nat (nat_of_digits (ip @ fp)) / 10 ^ length fp)
              else None))"

definition parse_number :: "string \<Rightarrow> rat option" where
  "parse_number s =
     (case s of
        [] \<Rightarrow> None
      | c # r \<Rightarrow>
          (if c = CHR ''-'' then map_option uminus (parse_unsigned r)
           else if c = CHR ''+'' then parse_unsigned r
           else parse_unsigned s))"

fun decimal_cell :: "cell \<Rightarrow> fnum" where
  "decimal_cell (Num x) = x"
| "decimal_cell (Str s) = (case parse_number s of Some q \<Rightarrow> Fin q | None \<Rightarrow> NaN)"

declare decimal_cell.simps(2) [simp del]

definition decimal_coerce :: "series \<Rightarrow> nat \<Rightarrow> fnum" where
  "decimal_coerce xs i = (if i < length xs then decimal_cell (xs ! i) else NaN)"

subsection \<open>Sequencing of failing steps\<close>

definition bind :: "error + 'a \<Rightarrow> ('a \<Rightarrow> error + 'b) \<Rightarrow> error + 'b" where
  "bind m f = (case m of Inl e \<Rightarrow> Inl e | Inr x \<Rightarrow> f x)"

text \<open>The first error of a list of results, or all the values.\<close>

fun collect :: "(error + 'a) list \<Rightarrow> error + 'a list" where
  "collect [] = Inr []"
| "collect (r # rs) = bind r (\<lambda>x. bind (collect rs) (\<lambda>xs. Inr (x # xs)))"

text \<open>\<^verbatim>\<open>df[col] = f(df)\<close>: the right-hand side is evaluated first, so a failure leaves no column.\<close>

definition assign :: "string \<Rightarrow> (dataframe \<Rightarrow> error + series) \<Rightarrow> dataframe \<Rightarrow> error + dataframe" where
  "assign col f df = bind (f df) (\<lambda>xs. Inr (setitem col xs df))"

section \<open>Derived metric calculator (census\_fetch.py)\<close>

text \<open>
  \<^verbatim>\<open>calculate_percentage\<close>:
  \<^verbatim>\<open>df[result_col] = to_numeric(df[numerator_col]) / to_numeric(df[denominator_col]) * 100\<close>,
  the quotient taken first, then the product, row by row, in float arithmetic on
  the two converted columns as floats. The frame that is returned is the one that
  was passed, with the column set.
\<close>

definition calculate_percentage ::
  "(series \<Rightarrow> nat \<Rightarrow> fnum) \<Rightarrow> (rat \<Rightarrow> fnum) \<Rightarrow>
     dataframe \<Rightarrow> string \<Rightarrow> string \<Rightarrow> string \<Rightarrow> error + dataframe" where
  "calculate_percentage coerce rnd df numerator_col denominator_col result_col =
     assign result_col
       (\<lambda>d. bind (getitem d numerator_col) (\<lambda>ns.
             bind (getitem d denominator_col) (\<lambda>ds.
               Inr (map2 (\<lambda>n m. Num (float_mul rnd
                                       (float_div rnd (to_float rnd n) (to_float rnd m)) (Fin 100)))
                      (to_numeric coerce ns) (to_numeric coerce ds)))))
       df"

section \<open>Geographic identifiers\<close>

text \<open>
  \<^verbatim>\<open>+\<close> on two cells of object or float columns: text is concatenated, numbers are
  added, a missing operand gives a missing result, and text with a number raises
  TypeError.
\<close>

fun cell_add :: "cell \<Rightarrow> cell \<Rightarrow> error + cell" where
  "cell_add (Str a) (Str b) = Inr (Str (a @ b))"
| "cell_add (Num a) (Num b) = Inr (Num (fadd a b))"
| "cell_add (Str a) (Num b) = (if b = NaN then Inr (Num NaN) else Inl TypeError)"
| "cell_add (Num a) (Str b) = (if a = NaN then Inr (Num NaN) else Inl TypeError)"

definition series_add :: "series \<Rightarrow> series \<Rightarrow> error + series" where
  "series_add xs ys = collect (map2 cell_add xs ys)"

text \<open>\<^verbatim>\<open>df[a] + df[b]\<close> and \<^verbatim>\<open>df[a] + df[b] + df[c]\<close>, evaluated left to right.\<close>

definition add_columns :: "dataframe \<Rightarrow> string \<Rightarrow> string \<Rightarrow> error + series" where
  "add_columns df a b =
     bind (getitem df a) (\<lambda>xs. bind (getitem df b) (\<lambda>ys. series_add xs ys))"

definition add_columns3 :: "dataframe \<Rightarrow> string \<Rightarrow> string \<Rightarrow> string \<Rightarrow> error + series" where
  "add_columns3 df a b c =
     bind (add_columns df a b) (\<lambda>xy. bind (getitem df c) (\<lambda>zs. series_add xy zs))"

subsection \<open>Metric fetcher (census\_fetch.py)\<close>

text \<open>
  The three fetch methods call the API client and build a frame from its answer;
  the client call together with \<^verbatim>\<open>pd.DataFrame(data)\<close> is a parameter here,
  taking the field tuple, the geography filters and the year, and failing with the
  error the client raises. What the methods add is the GEOID column.
\<close>

definition fetch_state_data ::
  "(string list \<Rightarrow> string \<Rightarrow> int \<Rightarrow> error + dataframe) \<Rightarrow>
     string list \<Rightarrow> int \<Rightarrow> string \<Rightarrow> error + dataframe" where
  "fetch_state_data acs5_state variables year state_fips =
     (let fields = ''NAME'' # variables
      in bind (acs5_state fields state_fips year)
           (assign ''GEOID'' (\<lambda>df. getitem df ''state'')))"

definition fetch_county_data ::
  "(string list \<Rightarrow> string \<Rightarrow> string \<Rightarrow> int \<Rightarrow> error + dataframe) \<Rightarrow>
     string list \<Rightarrow> int \<Rightarrow> string \<Rightarrow> string \<Rightarrow> error + dataframe" where
  "fetch_county_data acs5_state_county variables year state_fips county_fips =
     (let fields = ''NAME'' # variables
      in bind (acs5_state_county fields state_fips county_fips year)
           (assign ''GEOID'' (\<lambda>df. add_columns df ''state'' ''county'')))"

definition fetch_tract_data ::
  "(string list \<Rightarrow> string \<Rightarrow> string \<Rightarrow> string \<Rightarrow> int \<Rightarrow> error + dataframe) \<Rightarrow>
     string list \<Rightarrow> string \<Rightarrow> string \<Rightarrow> int \<Rightarrow> error + dataframe" where
  "fetch_tract_data acs5_state_county_tract variables state_fips county_fips year =
     (let fields = ''NAME'' # variables
      in bind (acs5_state_county_tract fields state_fips county_fips ''*'' year)
           (assign ''GEOID'' (\<lambda>df. add_columns3 df ''state'' ''county'' ''tract'')))"

text \<open>The cell of a column at a row, when the table has both.\<close>

definition cell_at :: "dataframe \<Rightarrow> string \<Rightarrow> nat \<Rightarrow> cell option" where
  "cell_at df col i =
     (case map_of df col of
        None \<Rightarrow> None
      | Some xs \<Rightarrow> if i < length xs then Some (xs ! i) else None)"

section \<open>Geometry loader and join (map\_visualize.py)\<close>

text \<open>\<^verbatim>\<open>str(n)\<close> of a Python int, as an f-string inserts it.\<close>

definition digit_char :: "nat \<Rightarrow> char" where
  "digit_char d = ''0123456789'' ! d"

fun str_nat :: "nat \<Rightarrow> string" where
  "str_nat n = (if n < 10 then [digit_char n] else str_nat (n div 10) @ [digit_char (n mod 10)])"

declare str_nat.simps [simp del]

definition str_int :: "int \<Rightarrow> string" where
  "str_int i = (if i < 0 then CHR ''-'' # str_nat (nat (- i)) else str_nat (nat i))"

text \<open>
  The archive address for a level, or the ValueError of the two checks. The state
  argument is an optional string; \<^verbatim>\<open>not state\<close> holds for None and for the
  empty string.
\<close>

definition geometry_url :: "string \<Rightarrow> string option \<Rightarrow> int \<Rightarrow> error + string" where
  "geometry_url level state year =
     (let base_url = ''https://www2.census.gov/geo/tiger/TIGER'' @ str_int year
      in if level = ''state'' then
           Inr (base_url @ ''/STATE/tl_'' @ str_int year @ ''_us_state.zip'')
         else if level = ''county'' then
           Inr (base_url @ ''/COUNTY/tl_'' @ str_int year @ ''_us_county.zip'')
         else if level = ''tract'' then
           (case state of
              None \<Rightarrow> Inl (ValueError ''State FIPS required for tract-level geometries'')
            | Some st \<Rightarrow>
                if st = [] then Inl (ValueError ''State FIPS required for tract-level geometries'')
                else Inr (base_url @ ''/TRACT/tl_'' @ str_int year @ ''_'' @ st @ ''_tract.zip''))
         else Inl (ValueError (''Unknown level: '' @ level)))"

text \<open>The GEOID assignment after the read; every level that reaches it is one of the three.\<close>

definition geometry_geoid :: "string \<Rightarrow> dataframe \<Rightarrow> error + dataframe" where
  "geometry_geoid level gdf =
     (if level = ''state'' then assign ''GEOID'' (\<lambda>d. getitem d ''STATEFP'') gdf
      else if level = ''county'' then assign ''GEOID'' (\<lambda>d. add_columns d ''STATEFP'' ''COUNTYFP'') gdf
      else if level = ''tract'' then
        assign ''GEOID'' (\<lambda>d. add_columns3 d ''STATEFP'' ''COUNTYFP'' ''TRACTCE'') gdf
      else Inr gdf)"

text \<open>
  \<^verbatim>\<open>load_geometries\<close>. The only network access is \<^verbatim>\<open>gpd.read_file(url)\<close>, a
  parameter here that gives the frame of the archive's attributes or the error
  the read raises. The result pairs the list of addresses requested with the
  outcome, so that a failure before the read shows an empty list.
\<close>

definition load_geometries ::
  "(string \<Rightarrow> error + dataframe) \<Rightarrow> string \<Rightarrow> string option \<Rightarrow> int \<Rightarrow>
     string list \<times> (error + dataframe)" where
  "load_geometries read_file level state year =
     (case geometry_url level state year of
        Inl e \<Rightarrow> ([], Inl e)
      | Inr url \<Rightarrow> ([url], bind (read_file url) (geometry_geoid level)))"

subsection \<open>Left join\<close>

text \<open>
  \<^verbatim>\<open>left.merge(right, on=key, how='left')\<close> on one key column. The rows of the
  result follow the left rows in order; a left row whose key equals the key of
  some right rows gives one result row for each of them, in the order of the right
  table, and a left row with no such right row gives one result row whose right
  columns are missing. Keys are compared as cells; the key columns of the two
  tables are of one kind, text as the two GEOID paths build them (pandas raises
  ValueError for a text key column against a numeric one, which is not a case
  here). A column label other than the key that both tables have is suffixed
  \<^verbatim>\<open>_x\<close> on the left and \<^verbatim>\<open>_y\<close> on the right; the key column of the
  result is the left one.
\<close>

definition take_left :: "series \<Rightarrow> series \<Rightarrow> series \<Rightarrow> series" where
  "take_left rk lk xs =
     concat (map2 (\<lambda>v x. replicate (max 1 (length (filter (\<lambda>k. k = v) rk))) x) lk xs)"

definition take_right :: "series \<Rightarrow> series \<Rightarrow> series \<Rightarrow> series" where
  "take_right rk lk ys =
     concat (map (\<lambda>v. let ms = map snd (filter (\<lambda>p. fst p = v) (zip rk ys))
                       in if ms = [] then [Num NaN] else ms) lk)"

definition left_label :: "dataframe \<Rightarrow> string \<Rightarrow> string \<Rightarrow> string" where
  "left_label right on c = (if c \<noteq> on \<and> c \<in> set (columns right) then c @ ''_x'' else c)"

definition right_label :: "dataframe \<Rightarrow> string \<Rightarrow> string" where
  "right_label left c = (if c \<in> set (columns left) then c @ ''_y'' else c)"

definition merge_left :: "dataframe \<Rightarrow> dataframe \<Rightarrow> string \<Rightarrow> error + dataframe" where
  "merge_left left right on =
     (case map_of right on of
        None \<Rightarrow> Inl (KeyError on)
      | Some rk \<Rightarrow>
          (case map_of left on of
             None \<Rightarrow> Inl (KeyError on)
           | Some lk \<Rightarrow>
               Inr (map (\<lambda>(c, xs). (left_label right on c, take_left rk lk xs)) left
                    @ map (\<lambda>(c, ys). (right_label left c, take_right rk lk ys))
                        (filter (\<lambda>(c, ys). c \<noteq> on) right))))"

text \<open>\<^verbatim>\<open>merge_data\<close>: the left join of the geometries with the data.\<close>

definition merge_data :: "dataframe \<Rightarrow> dataframe \<Rightarrow> string \<Rightarrow> error + dataframe" where
  "merge_data geometries data on = merge_left geometries data on"

section \<open>Area in square miles (create\_state\_density\_map.py)\<close>

text \<open>
  \<^verbatim>\<open>merged['area_sq_mi'] = merged_albers.geometry.area / 2589988.110336\<close>: the
  areas of the projected polygons, in square meters, are what the projection
  library returns and are the input here. The quotient is taken without rounding.
\<close>

definition area_sq_mi :: "fnum list \<Rightarrow> series" where
  "area_sq_mi areas = map (\<lambda>a. Num (float_div exact a (Fin (2589988110336 / 1000000)))) areas"

section \<open>Tract income cleaning (island\_county\_income\_tracts\_map.py)\<close>

text \<open>\<^verbatim>\<open>df[mask]\<close>: the rows at which the mask is true, in every column.\<close>

definition select :: "bool list \<Rightarrow> 'a list \<Rightarrow> 'a list" where
  "select keep xs = map fst (filter snd (zip xs keep))"

definition select_rows :: "bool list \<Rightarrow> dataframe \<Rightarrow> dataframe" where
  "select_rows keep df = map (\<lambda>(c, xs). (c, select keep xs)) df"

text \<open>\<^verbatim>\<open>df.dropna(subset=[col])\<close>.\<close>

definition dropna :: "string \<Rightarrow> dataframe \<Rightarrow> error + dataframe" where
  "dropna col df = bind (getitem df col) (\<lambda>xs. Inr (select_rows (map (\<lambda>x. \<not> isna x) xs) df))"

text \<open>\<^verbatim>\<open>xs > 0\<close> on a column: text against a number raises TypeError.\<close>

fun cell_gt0 :: "cell \<Rightarrow> error + bool" where
  "cell_gt0 (Num x) = Inr (gt0 x)"
| "cell_gt0 (Str s) = Inl TypeError"

text \<open>\<^verbatim>\<open>df[df[col] > 0]\<close>.\<close>

definition filter_positive :: "string \<Rightarrow> dataframe \<Rightarrow> error + dataframe" where
  "filter_positive col df =
     bind (getitem df col) (\<lambda>xs. bind (collect (map cell_gt0 xs)) (\<lambda>keep. Inr (select_rows keep df)))"

text \<open>\<^verbatim>\<open>df[[c1, ..., cn]]\<close>: the named columns in the order given.\<close>

definition select_columns :: "string list \<Rightarrow> dataframe \<Rightarrow> error + dataframe" where
  "select_columns cols df = collect (map (\<lambda>c. bind (getitem df c) (\<lambda>xs. Inr (c, xs))) cols)"

text \<open>
  The answer to the HTTP request: a request exception (transport failure, error
  status, a body that is not JSON), or the frame that
  \<^verbatim>\<open>pd.DataFrame(data[1:], columns=data[0])\<close> builds from the body.
\<close>

datatype response = RequestException | Frame dataframe

text \<open>
  \<^verbatim>\<open>fetch_income_data\<close> of the tract-level script. A request exception is caught
  and None is returned; a KeyError propagates.
\<close>

definition fetch_income_data ::
  "(series \<Rightarrow> nat \<Rightarrow> fnum) \<Rightarrow> response \<Rightarrow> error + dataframe option" where
  "fetch_income_data coerce resp =
     (case resp of
        RequestException \<Rightarrow> Inr None
      | Frame df0 \<Rightarrow>
          bind (assign ''tract_name'' (\<lambda>d. getitem d ''NAME'') df0) (\<lambda>df1.
          bind (assign ''median_income''
                  (\<lambda>d. bind (getitem d ''B19013_001E'') (\<lambda>xs. Inr (map Num (to_numeric coerce xs)))) df1) (\<lambda>df2.
          bind (assign ''tract_fips'' (\<lambda>d. getitem d ''tract'') df2) (\<lambda>df3.
          bind (assign ''county_fips'' (\<lambda>d. getitem d ''county'') df3) (\<lambda>df4.
          bind (assign ''state_fips'' (\<lambda>d. getitem d ''state'') df4) (\<lambda>df5.
          bind (assign ''full_fips'' (\<lambda>d. add_columns3 d ''state'' ''county'' ''tract'') df5) (\<lambda>df6.
          bind (dropna ''median_income'' df6) (\<lambda>df7.
          bind (filter_positive ''median_income'' df7) (\<lambda>df8.
          bind (select_columns
                  [''tract_name'', ''median_income'', ''full_fips'',
                   ''tract_fips'', ''county_fips'', ''state_fips''] df8) (\<lambda>out.
          Inr (Some out)))))))))))"

section \<open>Example tables\<close>

text \<open>
  Two tracts of Island County, Washington, as the statistical API answers, and the
  attribute table of one boundary polygon, which arrives with a GEOID of its own.
\<close>

definition example_api_table :: dataframe where
  "example_api_table =
     [(''NAME'', [Str ''Census Tract 9702'', Str ''Census Tract 9701'']),
      (''B19013_001E'', [Str ''-666666666'', Str ''75000'']),
      (''state'', [Str ''53'', Str ''53'']),
      (''county'', [Str ''029'', Str ''029'']),
      (''tract'', [Str ''970200'', Str ''970100''])]"

definition example_shape_table :: dataframe where
  "example_shape_table =
     [(''STATEFP'', [Str ''53'']),
      (''COUNTYFP'', [Str ''029'']),
      (''TRACTCE'', [Str ''970100'']),
      (''GEOID'', [Str ''53029970100'']),
      (''NAME'', [Str ''9701''])]"

text \<open>
  Three county polygons and a metric table with rows for two of them; and a metric
  table in which one key occurs twice and one key belongs to no polygon.
\<close>

definition example_geometries :: dataframe where
  "example_geometries =
     [(''GEOID'', [Str ''53029'', Str ''53033'', Str ''53061'']),
      (''NAME'', [Str ''Island'', Str ''King'', Str ''Snohomish''])]"

definition example_metrics :: dataframe where
  "example_metrics =
     [(''GEOID'', [Str ''53033'', Str ''53029'']),
      (''NAME'', [Str ''King County'', Str ''Island County'']),
      (''median_income'', [Num (Fin 100000), Num (Fin 75000)])]"

definition example_duplicate_metrics :: dataframe where
  "example_duplicate_metrics =
     [(''GEOID'', [Str ''53029'', Str ''53029'', Str ''41051'']),
      (''median_income'', [Num (Fin 75000), Num (Fin 76000), Num (Fin 80000)])]"

text \<open>
  Four tracts as the API answers for the income variable: a dollar amount, a zero,
  the suppression sentinel, and a text that is no number.
\<close>

definition example_income_table :: dataframe where
  "example_income_table =
     [(''NAME'', [Str ''Tract 9701'', Str ''Tract 9702'', Str ''Tract 9703'', Str ''Tract 9704'']),
      (''B19013_001E'', [Str ''75000'', Str ''0'', Str ''-666666666'', Str ''N/A'']),
      (''state'', [Str ''53'', Str ''53'', Str ''53'', Str ''53'']),
      (''county'', [Str ''029'', Str ''029'', Str ''029'', Str ''029'']),
      (''tract'', [Str ''970100'', Str ''970200'', Str ''970300'', Str ''970400''])]"

definition example_income_cleaned :: dataframe where
  "example_income_cleaned =
     [(''tract_name'', [Str ''Tract 9701'']),
      (''median_income'', [Num (Fin 75000)]),
      (''full_fips'', [Str ''53029970100'']),
      (''tract_fips'', [Str ''970100'']),
      (''county_fips'', [Str ''029'']),
      (''state_fips'', [Str ''53''])]"

section \<open>Basic facts about frames and failing steps\<close>

lemma bind_Inl [simp]: "bind (Inl e) f = Inl e"
  by (simp add: bind_def)

lemma bind_Inr [simp]: "bind (Inr x) f = f x"
  by (simp add: bind_def)

lemma bind_eq_Inr: "bind m f = Inr y \<longleftrightarrow> (\<exists>x. m = Inr x \<and> f x = Inr y)"
  by (cases m) simp_all

lemma bind_eq_Inl: "bind m f = Inl e \<longleftrightarrow> m = Inl e \<or> (\<exists>x. m = Inr x \<and> f x = Inl e)"
  by (cases m) simp_all

lemma collect_eq_Inr: "collect rs = Inr xs \<longleftrightarrow> rs = map Inr xs"
proof (induction rs arbitrary: xs)
  case Nil
  then show ?case by auto
next
  case (Cons r rs)
  show ?case
  proof (cases r)
    case (Inl e)
    then show ?thesis by (cases xs) auto
  next
    case (Inr x)
    show ?thesis
    proof (cases "collect rs")
      case (Inl e)
      with Cons Inr show ?thesis by (cases xs) auto
    next
      case r2: (Inr ys)
      with Cons [of ys] have "rs = map Inr ys" by simp
      with r2 Inr show ?thesis by (cases xs) auto
    qed
  qed
qed

lemma collect_eq_Inl: "collect rs = Inl e \<Longrightarrow> Inl e \<in> set rs"
proof (induction rs)
  case Nil
  then show ?case by simp
next
  case (Cons r rs)
  then show ?case by (cases r; cases "collect rs") auto
qed

lemma collect_map_Inr [simp]: "collect (map Inr xs) = Inr xs"
  by (simp add: collect_eq_Inr)

lemma map_of_setitem: "map_of (setitem c xs df) k = (if k = c then Some xs else map_of df k)"
  by (induction df) auto

lemma getitem_setitem:
  "getitem (setitem c xs df) k = (if k = c then Inr xs else getitem df k)"
  by (simp add: getitem_def map_of_setitem)

lemma getitem_eq_Inr: "getitem df c = Inr xs \<longleftrightarrow> map_of df c = Some xs"
  by (simp add: getitem_def split: option.splits)

lemma getitem_eq_Inl: "getitem df c = Inl e \<longleftrightarrow> map_of df c = None \<and> e = KeyError c"
  by (auto simp: getitem_def split: option.splits)

lemma columns_setitem:
  "columns (setitem c xs df) = (if c \<in> set (columns df) then columns df else columns df @ [c])"
  by (induction df) (auto simp: columns_def)

lemma setitem_other: "(k, ys) \<in> set df \<Longrightarrow> k \<noteq> c \<Longrightarrow> (k, ys) \<in> set (setitem c xs df)"
  by (induction df) auto

lemma setitem_mem: "(k, ys) \<in> set (setitem c xs df) \<Longrightarrow> (k = c \<and> ys = xs) \<or> (k, ys) \<in> set df"
  by (induction df) (auto split: if_splits)

lemma assign_eq_Inr:
  "assign c f df = Inr df' \<longleftrightarrow> (\<exists>xs. f df = Inr xs \<and> df' = setitem c xs df)"
  by (auto simp: assign_def bind_eq_Inr)

lemma cell_add_error: "cell_add x y = Inl e \<Longrightarrow> e = TypeError"
  by (cases x; cases y) (auto split: if_splits)

lemma series_add_error: "series_add xs ys = Inl e \<Longrightarrow> e = TypeError"
proof -
  assume "series_add xs ys = Inl e"
  then have "Inl e \<in> set (map2 cell_add xs ys)"
    unfolding series_add_def by (rule collect_eq_Inl)
  then obtain x y where "cell_add x y = Inl e" by (auto simp: in_set_zip)
  then show ?thesis by (rule cell_add_error)
qed

lemma series_add_nth:
  assumes "series_add xs ys = Inr zs"
  shows "length zs = min (length xs) (length ys)"
    and "i < length xs \<Longrightarrow> i < length ys \<Longrightarrow> cell_add (xs ! i) (ys ! i) = Inr (zs ! i)"
proof -
  from assms have eq: "map2 cell_add xs ys = map Inr zs"
    by (simp add: series_add_def collect_eq_Inr)
  then have "length (map2 cell_add xs ys) = length (map Inr zs :: (error + cell) list)" by simp
  then show len: "length zs = min (length xs) (length ys)" by simp
  assume i: "i < length xs" "i < length ys"
  then have "map2 cell_add xs ys ! i = cell_add (xs ! i) (ys ! i)" by simp
  moreover from i len have "(map Inr zs :: (error + cell) list) ! i = Inr (zs ! i)" by simp
  ultimately show "cell_add (xs ! i) (ys ! i) = Inr (zs ! i)" using eq by simp
qed

lemma geometry_geoid_error:
  "geometry_geoid level gdf = Inl e \<Longrightarrow> e \<noteq> ValueError msg"
  by (auto simp: geometry_geoid_def assign_def add_columns_def add_columns3_def
        bind_eq_Inl getitem_eq_Inl split: if_splits dest: series_add_error)

lemma calculate_percentage_result:
  assumes "getitem df n = Inr ns" and "getitem df d = Inr ds"
  shows "calculate_percentage coerce rnd df n d r =
     Inr (setitem r
           (map2 (\<lambda>a b. Num (float_mul rnd (float_div rnd (to_float rnd a) (to_float rnd b)) (Fin 100)))
              (to_numeric coerce ns) (to_numeric coerce ds)) df)"
  using assms by (simp add: calculate_percentage_def assign_def)

lemma calculate_percentage_Inr:
  assumes "calculate_percentage coerce rnd df n d r = Inr out"
  shows "\<exists>ns ds. getitem df n = Inr ns \<and> getitem df d = Inr ds \<and>
     out = setitem r
           (map2 (\<lambda>a b. Num (float_mul rnd (float_div rnd (to_float rnd a) (to_float rnd b)) (Fin 100)))
              (to_numeric coerce ns) (to_numeric coerce ds)) df"
  using assms by (auto simp: calculate_percentage_def assign_def bind_eq_Inr)

lemma length_to_numeric [simp]: "length (to_numeric coerce xs) = length xs"
  by (simp add: to_numeric_def)

lemma to_numeric_nth [simp]: "i < length xs \<Longrightarrow> to_numeric coerce xs ! i = coerce xs i"
  by (simp add: to_numeric_def)

lemma wf_df_getitem: "wf_df df k \<Longrightarrow> getitem df c = Inr xs \<Longrightarrow> length xs = k"
  by (auto simp: wf_df_def getitem_eq_Inr list_all_iff dest!: map_of_SomeD)

lemma wf_df_setitem: "wf_df df k \<Longrightarrow> length xs = k \<Longrightarrow> wf_df (setitem c xs df) k"
  unfolding wf_df_def
  by (auto simp: columns_setitem list_all_iff dest!: setitem_mem)

lemma to_float_simps [simp]:
  "to_float rnd NaN = NaN" "to_float rnd NegZero = NegZero"
  "to_float rnd PInf = PInf" "to_float rnd NInf = NInf"
  "to_float rnd (Fin 0) = Fin 0"
  "a \<noteq> 0 \<Longrightarrow> to_float rnd (Fin a) = rnd a"
  by (simp_all add: to_float_def)

lemma float_div_NaN [simp]: "float_div rnd NaN y = NaN" "float_div rnd x NaN = NaN"
  by (simp_all add: float_div_def)

lemma float_mul_NaN [simp]: "float_mul rnd NaN y = NaN" "float_mul rnd x NaN = NaN"
  by (simp_all add: float_mul_def)

lemma float_div_Fin: "a \<noteq> 0 \<Longrightarrow> b \<noteq> 0 \<Longrightarrow> float_div rnd (Fin a) (Fin b) = rnd (a / b)"
  by (simp add: float_div_def)

lemma float_div_Fin_zero:
  "a \<noteq> 0 \<Longrightarrow> float_div rnd (Fin a) (Fin 0) = signed_inf (a < 0)"
  "a \<noteq> 0 \<Longrightarrow> float_div rnd (Fin a) NegZero = signed_inf (\<not> a < 0)"
  by (simp_all add: float_div_def)

lemma float_mul_Fin: "a \<noteq> 0 \<Longrightarrow> b \<noteq> 0 \<Longrightarrow> float_mul rnd (Fin a) (Fin b) = rnd (a * b)"
  by (simp add: float_mul_def)

lemma float_mul_inf_100 [simp]: "float_mul rnd (signed_inf s) (Fin 100) = signed_inf s"
  by (simp add: float_mul_def signed_inf_def)

lemma is_zero_cases: "is_zero x \<Longrightarrow> x = Fin 0 \<or> x = NegZero"
  by (cases x) simp_all

lemma isna_signed_inf [simp]: "\<not> isna (Num (signed_inf s))"
  by (simp add: signed_inf_def)

lemma decimal_examples:
  "decimal_cell (Str ''50'') = Fin 50" "decimal_cell (Str ''200'') = Fin 200"
  "decimal_cell (Str ''N/A'') = NaN" "decimal_cell (Str ''0'') = Fin 0"
  "decimal_cell (Str ''2'') = Fin 2" "decimal_cell (Str ''30'') = Fin 30"
  "decimal_cell (Str ''60'') = Fin 60" "decimal_cell (Str ''75000'') = Fin 75000"
  "decimal_cell (Str ''-666666666'') = Fin (- 666666666)"
  by (simp_all add: decimal_cell.simps parse_number_def parse_unsigned_def is_digit_def
      digit_val_def nat_of_digits_def)

lemma to_numeric_decimal: "to_numeric decimal_coerce xs = map decimal_cell xs"
  by (rule nth_equalityI) (simp_all add: decimal_coerce_def)

lemma float_div_zero_Fin:
  "b \<noteq> 0 \<Longrightarrow> float_div rnd (Fin 0) (Fin b) = signed_zero (b < 0)"
  by (simp add: float_div_def)

lemma float_mul_zero_100 [simp]: "float_mul rnd (signed_zero s) (Fin 100) = signed_zero s"
  by (simp add: float_mul_def signed_zero_def)

section \<open>Properties of the variable catalog\<close>

lemma sublist_join:
  "k \<in> set ks \<Longrightarrow> sublist k (join sep ks)"
proof (induction sep ks rule: join.induct)
  case (1 sep)
  then show ?case by simp
next
  case (2 sep x)
  then show ?case by simp
next
  case (3 sep x y ys)
  show ?case
  proof (cases "k = x")
    case True
    then show ?thesis by simp
  next
    case False
    with 3 have "sublist k (join sep (y # ys))" by simp
    then obtain ps ss where "join sep (y # ys) = ps @ k @ ss"
      by (auto simp: sublist_def)
    then have "join sep (x # y # ys) = (x @ sep @ ps) @ k @ ss" by simp
    then show ?thesis unfolding sublist_def by blast
  qed
qed

lemma map_of_VARIABLES_None:
  "map_of VARIABLES category = None \<longleftrightarrow> category \<notin> set (map fst VARIABLES)"
  by (metis map_of_eq_None_iff set_map)

text \<open>
  C6. A category that is not a key of the catalog makes
  \<^verbatim>\<open>get_variables_for_category\<close> raise (a ValueError, the repository's
  unknown-category error) whose message contains every valid category name; a
  category that is a key returns the catalog's (metric name, provider code)
  pairs of that category and raises nothing.
\<close>

theorem get_variables_for_category_spec:
  "(category \<notin> set (map fst VARIABLES) \<longrightarrow>
      (\<exists>msg. get_variables_for_category category = Inl (ValueError msg)
         \<and> (\<forall>k \<in> set (map fst VARIABLES). sublist k msg)))
   \<and> (category \<in> set (map fst VARIABLES) \<longrightarrow>
      (\<exists>entries. map_of VARIABLES category = Some entries
         \<and> get_variables_for_category category = Inr entries))"
proof (intro conjI impI)
  assume "category \<notin> set (map fst VARIABLES)"
  then have none: "map_of VARIABLES category = None"
    using map_of_VARIABLES_None by blast
  have "\<forall>k \<in> set (map fst VARIABLES). sublist k (unknown_category_message category)"
  proof
    fix k assume "k \<in> set (map fst VARIABLES)"
    then have "sublist k (join '', '' (map fst VARIABLES))" by (rule sublist_join)
    then obtain ps ss where "join '', '' (map fst VARIABLES) = ps @ k @ ss"
      by (auto simp: sublist_def)
    then have "unknown_category_message category =
        (''Unknown category '' @ [CHR 0x27] @ category @ [CHR 0x27] @ ''. Available: '' @ ps) @ k @ ss"
      by (simp add: unknown_category_message_def)
    then show "sublist k (unknown_category_message category)"
      unfolding sublist_def by blast
  qed
  with none show "\<exists>msg. get_variables_for_category category = Inl (ValueError msg)
         \<and> (\<forall>k \<in> set (map fst VARIABLES). sublist k msg)"
    by (simp add: get_variables_for_category_def)
next
  assume "category \<in> set (map fst VARIABLES)"
  then obtain entries where "map_of VARIABLES category = Some entries"
    by (metis map_of_VARIABLES_None not_None_eq)
  then show "\<exists>entries. map_of VARIABLES category = Some entries
         \<and> get_variables_for_category category = Inr entries"
    by (simp add: get_variables_for_category_def)
qed

theorem get_variables_for_category_spec_witness:
  "get_variables_for_category ''bogus'' =
     Inl (ValueError (''Unknown category '' @ [CHR 0x27] @ ''bogus'' @ [CHR 0x27]
        @ ''. Available: population, age, race, education, income, housing, employment''))
   \<and> sublist ''housing'' (unknown_category_message ''bogus'')
   \<and> get_variables_for_category ''income'' =
       Inr [(''median_household'', ''B19013_001E''),
            (''per_capita'', ''B19301_001E''),
            (''mean_household'', ''B19025_001E'')]"
proof -
  have a: "''bogus'' \<notin> set (map fst VARIABLES)" by (simp add: VARIABLES_def)
  have b: "''income'' \<in> set (map fst VARIABLES)" by (simp add: VARIABLES_def)
  have c: "''housing'' \<in> set (map fst VARIABLES)" by (simp add: VARIABLES_def)
  from get_variables_for_category_spec [of "''bogus''"] a
  obtain msg where m: "get_variables_for_category ''bogus'' = Inl (ValueError msg)"
    and s: "\<forall>k \<in> set (map fst VARIABLES). sublist k msg" by blast
  have e: "get_variables_for_category ''bogus'' =
     Inl (ValueError (''Unknown category '' @ [CHR 0x27] @ ''bogus'' @ [CHR 0x27]
        @ ''. Available: population, age, race, education, income, housing, employment''))"
    by (simp add: get_variables_for_category_def unknown_category_message_def VARIABLES_def)
  have m': "msg = unknown_category_message ''bogus''"
    using m by (simp add: get_variables_for_category_def VARIABLES_def)
  from get_variables_for_category_spec [of "''income''"] b
  obtain entries where "map_of VARIABLES ''income'' = Some entries"
    and r: "get_variables_for_category ''income'' = Inr entries" by blast
  then have "entries = [(''median_household'', ''B19013_001E''),
            (''per_capita'', ''B19301_001E''),
            (''mean_household'', ''B19025_001E'')]"
    by (simp add: VARIABLES_def)
  with r e s c m' show ?thesis by blast
qed

section \<open>Geometry loader: argument checks\<close>

text \<open>
  C7. \<^verbatim>\<open>load_geometries\<close> raises the missing-parent error (a ValueError saying that
  the state FIPS is required) whenever the level is tract and no state is given
  (None or the empty string), and the unsupported-level error (a ValueError naming
  the level) for every level other than state, county and tract; in both cases no
  address has been requested. For every other input exactly one address is
  requested and the outcome is that of the read followed by the GEOID assignment,
  which raises no ValueError of its own.
\<close>

theorem load_geometries_argument_errors:
  "(level = ''tract'' \<and> (state = None \<or> state = Some []) \<longrightarrow>
      load_geometries read_file level state year =
        ([], Inl (ValueError ''State FIPS required for tract-level geometries'')))
   \<and> (level \<noteq> ''state'' \<and> level \<noteq> ''county'' \<and> level \<noteq> ''tract'' \<longrightarrow>
      load_geometries read_file level state year =
        ([], Inl (ValueError (''Unknown level: '' @ level))))
   \<and> (level = ''state'' \<or> level = ''county''
        \<or> (level = ''tract'' \<and> state \<noteq> None \<and> state \<noteq> Some []) \<longrightarrow>
      (\<exists>url. load_geometries read_file level state year =
          ([url], bind (read_file url) (geometry_geoid level)))
      \<and> ((\<forall>url msg. read_file url \<noteq> Inl (ValueError msg)) \<longrightarrow>
          (\<forall>msg. snd (load_geometries read_file level state year) \<noteq> Inl (ValueError msg))))"
proof (intro conjI impI)
  assume "level = ''tract'' \<and> (state = None \<or> state = Some [])"
  then show "load_geometries read_file level state year =
        ([], Inl (ValueError ''State FIPS required for tract-level geometries''))"
    by (auto simp: load_geometries_def geometry_url_def)
next
  assume "level \<noteq> ''state'' \<and> level \<noteq> ''county'' \<and> level \<noteq> ''tract''"
  then show "load_geometries read_file level state year =
        ([], Inl (ValueError (''Unknown level: '' @ level)))"
    by (simp add: load_geometries_def geometry_url_def)
next
  assume valid: "level = ''state'' \<or> level = ''county''
        \<or> (level = ''tract'' \<and> state \<noteq> None \<and> state \<noteq> Some [])"
  then obtain url where url: "geometry_url level state year = Inr url"
    by (cases state) (auto simp: geometry_url_def Let_def)
  then have res: "load_geometries read_file level state year =
          ([url], bind (read_file url) (geometry_geoid level))"
    by (simp add: load_geometries_def)
  then show "\<exists>url. load_geometries read_file level state year =
          ([url], bind (read_file url) (geometry_geoid level))" by blast
  assume rf: "\<forall>url msg. read_file url \<noteq> Inl (ValueError msg)"
  show "\<forall>msg. snd (load_geometries read_file level state year) \<noteq> Inl (ValueError msg)"
  proof
    fix msg
    show "snd (load_geometries read_file level state year) \<noteq> Inl (ValueError msg)"
      using rf res geometry_geoid_error [of level _ "ValueError msg" msg]
      by (auto simp: bind_eq_Inl)
  qed
qed

theorem load_geometries_argument_errors_witness:
  "load_geometries (\<lambda>u. Inr [(''STATEFP'', [Str ''53'']), (''COUNTYFP'', [Str ''029''])])
       ''tract'' None 2021 =
     ([], Inl (ValueError ''State FIPS required for tract-level geometries''))
   \<and> load_geometries (\<lambda>u. Inr [(''STATEFP'', [Str ''53'']), (''COUNTYFP'', [Str ''029''])])
       ''block'' (Some ''53'') 2021 =
     ([], Inl (ValueError ''Unknown level: block''))
   \<and> (\<exists>url. load_geometries (\<lambda>u. Inr [(''STATEFP'', [Str ''53'']), (''COUNTYFP'', [Str ''029''])])
          ''county'' None 2021 =
        ([url], Inr [(''STATEFP'', [Str ''53'']), (''COUNTYFP'', [Str ''029'']),
                     (''GEOID'', [Str ''53029''])]))
   \<and> (\<forall>msg. snd (load_geometries (\<lambda>u. Inr [(''STATEFP'', [Str ''53'']), (''COUNTYFP'', [Str ''029''])])
          ''county'' None 2021) \<noteq> Inl (ValueError msg))"
proof -
  let ?rf = "\<lambda>u::string. (Inr [(''STATEFP'', [Str ''53'']), (''COUNTYFP'', [Str ''029''])]
                :: error + dataframe)"
  have a: "''tract'' = ''tract'' \<and> ((None :: string option) = None \<or> None = Some [])" by simp
  have b: "''block'' \<noteq> ''state'' \<and> ''block'' \<noteq> ''county'' \<and> ''block'' \<noteq> ''tract''" by simp
  have c: "''county'' = ''state'' \<or> ''county'' = ''county''
        \<or> (''county'' = ''tract'' \<and> (None :: string option) \<noteq> None \<and> None \<noteq> Some [])" by simp
  have d: "\<forall>url msg. ?rf url \<noteq> Inl (ValueError msg)" by simp
  have g: "geometry_geoid ''county'' [(''STATEFP'', [Str ''53'']), (''COUNTYFP'', [Str ''029''])]
      = Inr [(''STATEFP'', [Str ''53'']), (''COUNTYFP'', [Str ''029'']), (''GEOID'', [Str ''53029''])]"
    by (simp add: geometry_geoid_def assign_def add_columns_def getitem_def series_add_def)
  from load_geometries_argument_errors [where level = "''tract''" and state = None
      and read_file = ?rf and year = 2021] a
  have 1: "load_geometries ?rf ''tract'' None 2021 =
     ([], Inl (ValueError ''State FIPS required for tract-level geometries''))" by blast
  from load_geometries_argument_errors [where level = "''block''" and state = "Some ''53''"
      and read_file = ?rf and year = 2021] b
  have 2: "load_geometries ?rf ''block'' (Some ''53'') 2021 =
     ([], Inl (ValueError ''Unknown level: block''))" by simp
  from load_geometries_argument_errors [where level = "''county''" and state = None
      and read_file = ?rf and year = 2021] c d
  have 3: "(\<exists>url. load_geometries ?rf ''county'' None 2021 =
          ([url], bind (?rf url) (geometry_geoid ''county'')))
      \<and> (\<forall>msg. snd (load_geometries ?rf ''county'' None 2021) \<noteq> Inl (ValueError msg))"
    by blast
  then have "\<exists>url. load_geometries ?rf ''county'' None 2021 =
        ([url], Inr [(''STATEFP'', [Str ''53'']), (''COUNTYFP'', [Str ''029'']),
                     (''GEOID'', [Str ''53029''])])"
    using g by simp
  with 1 2 3 show ?thesis by blast
qed

section \<open>Area conversion\<close>

text \<open>
  C8. The area column is the projected area in square meters divided by
  2,589,988.110336: a finite area a becomes a / 2589988.110336 and the area
  2,589,988.110336 becomes exactly 1 (square mile).
\<close>

theorem area_sq_mi_conversion:
  "area_sq_mi (map Fin as) = map (\<lambda>a. Num (Fin (a / 2589988.110336))) as
   \<and> area_sq_mi [Fin 2589988.110336] = [Num (Fin 1)]"
  by (simp add: area_sq_mi_def float_div_def exact_def signed_zero_def)

section \<open>Derived metric calculator\<close>


lemma percentage_example_table:
  "calculate_percentage decimal_coerce exact
     [(''num'', [Str ''50'', Str ''N/A'', Str ''50'']),
      (''den'', [Str ''200'', Str ''200'', Str ''0''])] ''num'' ''den'' ''pct'' =
   Inr [(''num'', [Str ''50'', Str ''N/A'', Str ''50'']),
        (''den'', [Str ''200'', Str ''200'', Str ''0'']),
        (''pct'', [Num (Fin 25), Num NaN, Num PInf])]"
  by (simp add: calculate_percentage_def assign_def getitem_def to_numeric_def upt_rec
      decimal_coerce_def decimal_examples float_div_def float_mul_def to_float_def
      exact_def signed_inf_def)



text \<open>
  C9. When \<^verbatim>\<open>calculate_percentage\<close> returns, every column other than the result
  column is in the returned table with the cells it had, no other column has
  appeared or gone, the order of the labels is kept (a new result column comes
  last), and the number of rows is the same.
\<close>

theorem calculate_percentage_frame:
  assumes "calculate_percentage coerce rnd df numerator_col denominator_col result_col = Inr out"
  shows "(\<forall>c. c \<noteq> result_col \<longrightarrow> getitem out c = getitem df c)
    \<and> (\<forall>c xs. c \<noteq> result_col \<longrightarrow> ((c, xs) \<in> set out \<longleftrightarrow> (c, xs) \<in> set df))
    \<and> columns out = (if result_col \<in> set (columns df) then columns df
                      else columns df @ [result_col])
    \<and> (\<forall>k. wf_df df k \<longrightarrow> wf_df out k)"
proof -
  from assms obtain ns ds where ns: "getitem df numerator_col = Inr ns"
    and ds: "getitem df denominator_col = Inr ds"
    and out: "out = setitem result_col
        (map2 (\<lambda>a b. Num (float_mul rnd (float_div rnd (to_float rnd a) (to_float rnd b)) (Fin 100)))
           (to_numeric coerce ns) (to_numeric coerce ds)) df"
    using calculate_percentage_Inr by blast
  have 1: "\<forall>c. c \<noteq> result_col \<longrightarrow> getitem out c = getitem df c"
    by (simp add: out getitem_setitem)
  have 2: "\<forall>c xs. c \<noteq> result_col \<longrightarrow> ((c, xs) \<in> set out \<longleftrightarrow> (c, xs) \<in> set df)"
    unfolding out by (auto dest: setitem_mem intro: setitem_other)
  have 3: "columns out = (if result_col \<in> set (columns df) then columns df
                      else columns df @ [result_col])"
    unfolding out by (rule columns_setitem)
  have 4: "\<forall>k. wf_df df k \<longrightarrow> wf_df out k"
  proof (intro allI impI)
    fix k assume wf: "wf_df df k"
    with ns ds have "length ns = k" "length ds = k" by (auto dest: wf_df_getitem)
    then show "wf_df out k"
      unfolding out using wf by (intro wf_df_setitem) simp_all
  qed
  from 1 2 3 4 show ?thesis by blast
qed

theorem calculate_percentage_frame_witness:
  "calculate_percentage decimal_coerce exact
     [(''NAME'', [Str ''Island'', Str ''King'']),
      (''num'', [Str ''50'', Str ''30'']),
      (''den'', [Str ''200'', Str ''60''])] ''num'' ''den'' ''pct'' =
   Inr [(''NAME'', [Str ''Island'', Str ''King'']),
        (''num'', [Str ''50'', Str ''30'']),
        (''den'', [Str ''200'', Str ''60'']),
        (''pct'', [Num (Fin 25), Num (Fin 50)])]
   \<and> getitem [(''NAME'', [Str ''Island'', Str ''King'']),
        (''num'', [Str ''50'', Str ''30'']),
        (''den'', [Str ''200'', Str ''60'']),
        (''pct'', [Num (Fin 25), Num (Fin 50)])] ''NAME''
      = getitem [(''NAME'', [Str ''Island'', Str ''King'']),
        (''num'', [Str ''50'', Str ''30'']),
        (''den'', [Str ''200'', Str ''60''])] ''NAME''
   \<and> wf_df [(''NAME'', [Str ''Island'', Str ''King'']),
        (''num'', [Str ''50'', Str ''30'']),
        (''den'', [Str ''200'', Str ''60''])] 2
   \<and> wf_df [(''NAME'', [Str ''Island'', Str ''King'']),
        (''num'', [Str ''50'', Str ''30'']),
        (''den'', [Str ''200'', Str ''60'']),
        (''pct'', [Num (Fin 25), Num (Fin 50)])] 2"
proof -
  let ?df = "[(''NAME'', [Str ''Island'', Str ''King'']),
      (''num'', [Str ''50'', Str ''30'']),
      (''den'', [Str ''200'', Str ''60''])]"
  let ?out = "[(''NAME'', [Str ''Island'', Str ''King'']),
        (''num'', [Str ''50'', Str ''30'']),
        (''den'', [Str ''200'', Str ''60'']),
        (''pct'', [Num (Fin 25), Num (Fin 50)])]"
  have run: "calculate_percentage decimal_coerce exact ?df ''num'' ''den'' ''pct'' = Inr ?out"
    by (simp add: calculate_percentage_def assign_def getitem_def to_numeric_def upt_rec
        decimal_coerce_def decimal_examples float_div_def float_mul_def to_float_def
        exact_def)
  have wf: "wf_df ?df 2" by (simp add: wf_df_def columns_def)
  have ne: "''NAME'' \<noteq> ''pct''" by simp
  note frame = calculate_percentage_frame [OF run]
  have same: "getitem ?out ''NAME'' = getitem ?df ''NAME''"
    by (rule conjunct1 [OF frame, rule_format, OF ne])
  have wf': "wf_df ?out 2"
    by (rule conjunct2 [OF conjunct2 [OF conjunct2 [OF frame]], rule_format, OF wf])
  show ?thesis
    by (rule conjI [OF run conjI [OF same conjI [OF wf wf']]])
qed

section \<open>Geographic identifiers on the two paths\<close>

lemma cell_at_setitem:
  "cell_at (setitem c xs df) k i =
     (if k = c then (if i < length xs then Some (xs ! i) else None) else cell_at df k i)"
  by (simp add: cell_at_def map_of_setitem)

lemma cell_at_getitem:
  "cell_at df c i = Some x \<Longrightarrow> \<exists>xs. getitem df c = Inr xs \<and> i < length xs \<and> xs ! i = x"
  by (auto simp: cell_at_def getitem_def split: option.splits if_splits)

lemma add_columns_at:
  assumes "add_columns d a b = Inr G"
    and "cell_at d a i = Some (Str s)" and "cell_at d b i = Some (Str c)"
  shows "i < length G \<and> G ! i = Str (s @ c)"
proof -
  from assms(2) obtain xs where xs: "getitem d a = Inr xs" "i < length xs" "xs ! i = Str s"
    by (auto dest: cell_at_getitem)
  from assms(3) obtain ys where ys: "getitem d b = Inr ys" "i < length ys" "ys ! i = Str c"
    by (auto dest: cell_at_getitem)
  from assms(1) xs(1) ys(1) have add: "series_add xs ys = Inr G"
    by (simp add: add_columns_def)
  from series_add_nth(1) [OF add] xs(2) ys(2) have "i < length G" by simp
  moreover from series_add_nth(2) [OF add xs(2) ys(2)] xs(3) ys(3) have "G ! i = Str (s @ c)"
    by simp
  ultimately show ?thesis by simp
qed

lemma add_columns3_at:
  assumes "add_columns3 d a b c = Inr G"
    and "cell_at d a i = Some (Str s)" and "cell_at d b i = Some (Str t)"
    and "cell_at d c i = Some (Str u)"
  shows "i < length G \<and> G ! i = Str (s @ t @ u)"
proof -
  from assms(1) obtain xy zs where xy: "add_columns d a b = Inr xy"
    and zs: "getitem d c = Inr zs" and add: "series_add xy zs = Inr G"
    by (auto simp: add_columns3_def bind_eq_Inr)
  from add_columns_at [OF xy assms(2,3)] have i: "i < length xy" and v: "xy ! i = Str (s @ t)"
    by simp_all
  from assms(4) zs have j: "i < length zs" and w: "zs ! i = Str u"
    by (auto dest!: cell_at_getitem)
  from series_add_nth(1) [OF add] i j have "i < length G" by simp
  moreover from series_add_nth(2) [OF add i j] v w have "G ! i = Str (s @ t @ u)" by simp
  ultimately show ?thesis by simp
qed

lemma load_geometries_read:
  assumes "load_geometries read_file level st year = ([url], Inr gdf)"
    and "read_file url = Inr g0"
  shows "geometry_geoid level g0 = Inr gdf"
  using assms by (auto simp: load_geometries_def split: sum.splits)

lemma state_geoid_at:
  assumes "assign ''GEOID'' (\<lambda>d. getitem d a) d0 = Inr d"
    and "cell_at d0 a i = Some (Str s)"
  shows "cell_at d ''GEOID'' i = Some (Str s)"
proof -
  from assms(1) obtain xs where xs: "getitem d0 a = Inr xs" and d: "d = setitem ''GEOID'' xs d0"
    by (auto simp: assign_eq_Inr)
  from assms(2) xs have "i < length xs \<and> xs ! i = Str s" by (auto dest!: cell_at_getitem)
  with d show ?thesis by (simp add: cell_at_setitem)
qed

lemma county_geoid_at:
  assumes "assign ''GEOID'' (\<lambda>d. add_columns d a b) d0 = Inr d"
    and "cell_at d0 a i = Some (Str s)" and "cell_at d0 b i = Some (Str c)"
  shows "cell_at d ''GEOID'' i = Some (Str (s @ c))"
proof -
  from assms(1) obtain G where G: "add_columns d0 a b = Inr G" and d: "d = setitem ''GEOID'' G d0"
    by (auto simp: assign_eq_Inr)
  from add_columns_at [OF G assms(2,3)] d show ?thesis by (simp add: cell_at_setitem)
qed

lemma tract_geoid_at:
  assumes "assign ''GEOID'' (\<lambda>d. add_columns3 d a b c) d0 = Inr d"
    and "cell_at d0 a i = Some (Str s)" and "cell_at d0 b i = Some (Str t)"
    and "cell_at d0 c i = Some (Str u)"
  shows "cell_at d ''GEOID'' i = Some (Str (s @ t @ u))"
proof -
  from assms(1) obtain G where G: "add_columns3 d0 a b c = Inr G"
    and d: "d = setitem ''GEOID'' G d0"
    by (auto simp: assign_eq_Inr)
  from add_columns3_at [OF G assms(2-4)] d show ?thesis by (simp add: cell_at_setitem)
qed

text \<open>
  C1. For each of the three levels: let the API client deliver a table to the
  fetch method and the shapefile read deliver a table to \<^verbatim>\<open>load_geometries\<close>,
  and let both methods return. If a row of the first delivered table and a row
  of the second carry the same component strings (state; state and county;
  state, county and tract, in the fields \<^verbatim>\<open>state\<close>, \<^verbatim>\<open>county\<close>, \<^verbatim>\<open>tract\<close> of
  the one and \<^verbatim>\<open>STATEFP\<close>, \<^verbatim>\<open>COUNTYFP\<close>, \<^verbatim>\<open>TRACTCE\<close> of the other), then in
  the returned tables these two rows carry the same GEOID string, the
  concatenation of the components as they were delivered.
\<close>

theorem geoid_paths_agree:
  "(acs5_state (''NAME'' # variables) state_fips year = Inr d0
      \<and> fetch_state_data acs5_state variables year state_fips = Inr df
      \<and> read_file url = Inr g0
      \<and> load_geometries read_file ''state'' st gyear = ([url], Inr gdf)
      \<and> cell_at d0 ''state'' i = Some (Str s) \<and> cell_at g0 ''STATEFP'' j = Some (Str s)
    \<longrightarrow> cell_at df ''GEOID'' i = Some (Str s) \<and> cell_at gdf ''GEOID'' j = Some (Str s))
   \<and> (acs5_state_county (''NAME'' # variables) state_fips county_fips year = Inr d0
      \<and> fetch_county_data acs5_state_county variables year state_fips county_fips = Inr df
      \<and> read_file url = Inr g0
      \<and> load_geometries read_file ''county'' st gyear = ([url], Inr gdf)
      \<and> cell_at d0 ''state'' i = Some (Str s) \<and> cell_at g0 ''STATEFP'' j = Some (Str s)
      \<and> cell_at d0 ''county'' i = Some (Str c) \<and> cell_at g0 ''COUNTYFP'' j = Some (Str c)
    \<longrightarrow> cell_at df ''GEOID'' i = Some (Str (s @ c))
      \<and> cell_at gdf ''GEOID'' j = Some (Str (s @ c)))
   \<and> (acs5_state_county_tract (''NAME'' # variables) state_fips county_fips ''*'' year = Inr d0
      \<and> fetch_tract_data acs5_state_county_tract variables state_fips county_fips year = Inr df
      \<and> read_file url = Inr g0
      \<and> load_geometries read_file ''tract'' st gyear = ([url], Inr gdf)
      \<and> cell_at d0 ''state'' i = Some (Str s) \<and> cell_at g0 ''STATEFP'' j = Some (Str s)
      \<and> cell_at d0 ''county'' i = Some (Str c) \<and> cell_at g0 ''COUNTYFP'' j = Some (Str c)
      \<and> cell_at d0 ''tract'' i = Some (Str t) \<and> cell_at g0 ''TRACTCE'' j = Some (Str t)
    \<longrightarrow> cell_at df ''GEOID'' i = Some (Str (s @ c @ t))
      \<and> cell_at gdf ''GEOID'' j = Some (Str (s @ c @ t)))"
proof (intro conjI impI)
  assume h: "acs5_state (''NAME'' # variables) state_fips year = Inr d0
      \<and> fetch_state_data acs5_state variables year state_fips = Inr df
      \<and> read_file url = Inr g0
      \<and> load_geometries read_file ''state'' st gyear = ([url], Inr gdf)
      \<and> cell_at d0 ''state'' i = Some (Str s) \<and> cell_at g0 ''STATEFP'' j = Some (Str s)"
  then have "assign ''GEOID'' (\<lambda>d. getitem d ''state'') d0 = Inr df"
    by (auto simp: fetch_state_data_def)
  with h show "cell_at df ''GEOID'' i = Some (Str s)"
    by (intro state_geoid_at [of "''state''" d0]) simp_all
  from h have "geometry_geoid ''state'' g0 = Inr gdf"
    by (intro load_geometries_read [of read_file _ st gyear url]) simp_all
  then have "assign ''GEOID'' (\<lambda>d. getitem d ''STATEFP'') g0 = Inr gdf"
    by (simp add: geometry_geoid_def)
  with h show "cell_at gdf ''GEOID'' j = Some (Str s)"
    by (intro state_geoid_at [of "''STATEFP''" g0]) simp_all
next
  assume h: "acs5_state_county (''NAME'' # variables) state_fips county_fips year = Inr d0
      \<and> fetch_county_data acs5_state_county variables year state_fips county_fips = Inr df
      \<and> read_file url = Inr g0
      \<and> load_geometries read_file ''county'' st gyear = ([url], Inr gdf)
      \<and> cell_at d0 ''state'' i = Some (Str s) \<and> cell_at g0 ''STATEFP'' j = Some (Str s)
      \<and> cell_at d0 ''county'' i = Some (Str c) \<and> cell_at g0 ''COUNTYFP'' j = Some (Str c)"
  then have "assign ''GEOID'' (\<lambda>d. add_columns d ''state'' ''county'') d0 = Inr df"
    by (auto simp: fetch_county_data_def)
  with h show "cell_at df ''GEOID'' i = Some (Str (s @ c))"
    by (intro county_geoid_at [of "''state''" "''county''" d0]) simp_all
  from h have "geometry_geoid ''county'' g0 = Inr gdf"
    by (intro load_geometries_read [of read_file _ st gyear url]) simp_all
  then have "assign ''GEOID'' (\<lambda>d. add_columns d ''STATEFP'' ''COUNTYFP'') g0 = Inr gdf"
    by (simp add: geometry_geoid_def)
  with h show "cell_at gdf ''GEOID'' j = Some (Str (s @ c))"
    by (intro county_geoid_at [of "''STATEFP''" "''COUNTYFP''" g0]) simp_all
next
  assume h: "acs5_state_county_tract (''NAME'' # variables) state_fips county_fips ''*'' year = Inr d0
      \<and> fetch_tract_data acs5_state_county_tract variables state_fips county_fips year = Inr df
      \<and> read_file url = Inr g0
      \<and> load_geometries read_file ''tract'' st gyear = ([url], Inr gdf)
      \<and> cell_at d0 ''state'' i = Some (Str s) \<and> cell_at g0 ''STATEFP'' j = Some (Str s)
      \<and> cell_at d0 ''county'' i = Some (Str c) \<and> cell_at g0 ''COUNTYFP'' j = Some (Str c)
      \<and> cell_at d0 ''tract'' i = Some (Str t) \<and> cell_at g0 ''TRACTCE'' j = Some (Str t)"
  then have "assign ''GEOID'' (\<lambda>d. add_columns3 d ''state'' ''county'' ''tract'') d0 = Inr df"
    by (auto simp: fetch_tract_data_def)
  with h show "cell_at df ''GEOID'' i = Some (Str (s @ c @ t))"
    by (intro tract_geoid_at [of "''state''" "''county''" "''tract''" d0]) simp_all
  from h have "geometry_geoid ''tract'' g0 = Inr gdf"
    by (intro load_geometries_read [of read_file _ st gyear url]) simp_all
  then have "assign ''GEOID'' (\<lambda>d. add_columns3 d ''STATEFP'' ''COUNTYFP'' ''TRACTCE'') g0 = Inr gdf"
    by (simp add: geometry_geoid_def)
  with h show "cell_at gdf ''GEOID'' j = Some (Str (s @ c @ t))"
    by (intro tract_geoid_at [of "''STATEFP''" "''COUNTYFP''" "''TRACTCE''" g0]) simp_all
qed

theorem geoid_paths_agree_witness:
  "cell_at example_api_table ''state'' 1 = Some (Str ''53'')
   \<and> cell_at example_shape_table ''STATEFP'' 0 = Some (Str ''53'')
   \<and> cell_at example_api_table ''county'' 1 = Some (Str ''029'')
   \<and> cell_at example_shape_table ''COUNTYFP'' 0 = Some (Str ''029'')
   \<and> cell_at example_api_table ''tract'' 1 = Some (Str ''970100'')
   \<and> cell_at example_shape_table ''TRACTCE'' 0 = Some (Str ''970100'')
   \<and> (\<exists>df gdf url.
        fetch_state_data (\<lambda>fields state_fips year. Inr example_api_table)
          [''B19013_001E''] 2021 ''53'' = Inr df
      \<and> load_geometries (\<lambda>url. Inr example_shape_table) ''state'' None 2021 = ([url], Inr gdf)
      \<and> cell_at df ''GEOID'' 1 = Some (Str ''53'')
      \<and> cell_at gdf ''GEOID'' 0 = Some (Str ''53''))
   \<and> (\<exists>df gdf url.
        fetch_county_data (\<lambda>fields state_fips county_fips year. Inr example_api_table)
          [''B19013_001E''] 2021 ''53'' ''029'' = Inr df
      \<and> load_geometries (\<lambda>url. Inr example_shape_table) ''county'' None 2021 = ([url], Inr gdf)
      \<and> cell_at df ''GEOID'' 1 = Some (Str ''53029'')
      \<and> cell_at gdf ''GEOID'' 0 = Some (Str ''53029''))
   \<and> (\<exists>df gdf url.
        fetch_tract_data (\<lambda>fields state_fips county_fips tract year. Inr example_api_table)
          [''B19013_001E''] ''53'' ''029'' 2021 = Inr df
      \<and> load_geometries (\<lambda>url. Inr example_shape_table) ''tract'' (Some ''53'') 2021
           = ([url], Inr gdf)
      \<and> cell_at df ''GEOID'' 1 = Some (Str ''53029970100'')
      \<and> cell_at gdf ''GEOID'' 0 = Some (Str ''53029970100''))"
proof -
  let ?c1 = "\<lambda>(fields::string list) (state_fips::string) (year::int).
      (Inr example_api_table :: error + dataframe)"
  let ?c2 = "\<lambda>(fields::string list) (state_fips::string) (county_fips::string) (year::int).
      (Inr example_api_table :: error + dataframe)"
  let ?c3 = "\<lambda>(fields::string list) (state_fips::string) (county_fips::string) (tract::string)
      (year::int). (Inr example_api_table :: error + dataframe)"
  let ?rf = "\<lambda>url::string. (Inr example_shape_table :: error + dataframe)"
  let ?S = "''GEOID''"
  have api: "getitem example_api_table ''state'' = Inr [Str ''53'', Str ''53'']"
    "getitem example_api_table ''county'' = Inr [Str ''029'', Str ''029'']"
    "getitem example_api_table ''tract'' = Inr [Str ''970200'', Str ''970100'']"
    by (simp_all add: example_api_table_def getitem_def)
  have shp: "getitem example_shape_table ''STATEFP'' = Inr [Str ''53'']"
    "getitem example_shape_table ''COUNTYFP'' = Inr [Str ''029'']"
    "getitem example_shape_table ''TRACTCE'' = Inr [Str ''970100'']"
    by (simp_all add: example_shape_table_def getitem_def)
  have a: "cell_at example_api_table ''state'' 1 = Some (Str ''53'')"
    "cell_at example_api_table ''county'' 1 = Some (Str ''029'')"
    "cell_at example_api_table ''tract'' 1 = Some (Str ''970100'')"
    by (simp_all add: example_api_table_def cell_at_def)
  have g: "cell_at example_shape_table ''STATEFP'' 0 = Some (Str ''53'')"
    "cell_at example_shape_table ''COUNTYFP'' 0 = Some (Str ''029'')"
    "cell_at example_shape_table ''TRACTCE'' 0 = Some (Str ''970100'')"
    by (simp_all add: example_shape_table_def cell_at_def)
  \<comment> \<open>state level\<close>
  have d1: "?c1 (''NAME'' # [''B19013_001E'']) ''53'' 2021 = Inr example_api_table" by simp
  obtain df1 where f1: "fetch_state_data ?c1 [''B19013_001E''] 2021 ''53'' = Inr df1"
    by (simp add: fetch_state_data_def assign_def api)
  obtain u1 g1 where l1: "load_geometries ?rf ''state'' None 2021 = ([u1], Inr g1)"
    by (simp add: load_geometries_def geometry_url_def geometry_geoid_def assign_def shp)
  have r1: "?rf u1 = Inr example_shape_table" by simp
  have s1: "cell_at df1 ''GEOID'' 1 = Some (Str ''53'') \<and> cell_at g1 ''GEOID'' 0 = Some (Str ''53'')"
    by (rule conjunct1 [OF geoid_paths_agree, rule_format,
          OF conjI [OF d1 conjI [OF f1 conjI [OF r1 conjI [OF l1 conjI [OF a(1) g(1)]]]]]])
  \<comment> \<open>county level\<close>
  have d2: "?c2 (''NAME'' # [''B19013_001E'']) ''53'' ''029'' 2021 = Inr example_api_table" by simp
  obtain df2 where f2: "fetch_county_data ?c2 [''B19013_001E''] 2021 ''53'' ''029'' = Inr df2"
    by (simp add: fetch_county_data_def assign_def add_columns_def series_add_def api)
  obtain u2 g2 where l2: "load_geometries ?rf ''county'' None 2021 = ([u2], Inr g2)"
    by (simp add: load_geometries_def geometry_url_def geometry_geoid_def assign_def
        add_columns_def series_add_def shp)
  have r2: "?rf u2 = Inr example_shape_table" by simp
  have s2: "cell_at df2 ''GEOID'' 1 = Some (Str (''53'' @ ''029''))
      \<and> cell_at g2 ''GEOID'' 0 = Some (Str (''53'' @ ''029''))"
    by (rule conjunct1 [OF conjunct2 [OF geoid_paths_agree], rule_format,
          OF conjI [OF d2 conjI [OF f2 conjI [OF r2 conjI [OF l2 conjI [OF a(1) conjI [OF g(1)
            conjI [OF a(2) g(2)]]]]]]]])
  \<comment> \<open>tract level\<close>
  have d3: "?c3 (''NAME'' # [''B19013_001E'']) ''53'' ''029'' ''*'' 2021 = Inr example_api_table"
    by simp
  obtain df3 where f3: "fetch_tract_data ?c3 [''B19013_001E''] ''53'' ''029'' 2021 = Inr df3"
    by (simp add: fetch_tract_data_def assign_def add_columns3_def add_columns_def
        series_add_def api)
  obtain u3 g3 where l3: "load_geometries ?rf ''tract'' (Some ''53'') 2021 = ([u3], Inr g3)"
    by (simp add: load_geometries_def geometry_url_def geometry_geoid_def assign_def
        add_columns3_def add_columns_def series_add_def shp)
  have r3: "?rf u3 = Inr example_shape_table" by simp
  have s3: "cell_at df3 ''GEOID'' 1 = Some (Str (''53'' @ ''029'' @ ''970100''))
      \<and> cell_at g3 ''GEOID'' 0 = Some (Str (''53'' @ ''029'' @ ''970100''))"
    by (rule conjunct2 [OF conjunct2 [OF geoid_paths_agree], rule_format,
          OF conjI [OF d3 conjI [OF f3 conjI [OF r3 conjI [OF l3 conjI [OF a(1) conjI [OF g(1)
            conjI [OF a(2) conjI [OF g(2) conjI [OF a(3) g(3)]]]]]]]]]])
  have e1: "\<exists>df gdf url. fetch_state_data ?c1 [''B19013_001E''] 2021 ''53'' = Inr df
      \<and> load_geometries ?rf ''state'' None 2021 = ([url], Inr gdf)
      \<and> cell_at df ''GEOID'' 1 = Some (Str ''53'')
      \<and> cell_at gdf ''GEOID'' 0 = Some (Str ''53'')"
    using f1 l1 s1 by (intro exI [of _ df1] exI [of _ g1] exI [of _ u1]) simp
  have e2: "\<exists>df gdf url. fetch_county_data ?c2 [''B19013_001E''] 2021 ''53'' ''029'' = Inr df
      \<and> load_geometries ?rf ''county'' None 2021 = ([url], Inr gdf)
      \<and> cell_at df ''GEOID'' 1 = Some (Str ''53029'')
      \<and> cell_at gdf ''GEOID'' 0 = Some (Str ''53029'')"
    using f2 l2 s2 by (intro exI [of _ df2] exI [of _ g2] exI [of _ u2]) simp
  have e3: "\<exists>df gdf url. fetch_tract_data ?c3 [''B19013_001E''] ''53'' ''029'' 2021 = Inr df
      \<and> load_geometries ?rf ''tract'' (Some ''53'') 2021 = ([url], Inr gdf)
      \<and> cell_at df ''GEOID'' 1 = Some (Str ''53029970100'')
      \<and> cell_at gdf ''GEOID'' 0 = Some (Str ''53029970100'')"
    using f3 l3 s3 by (intro exI [of _ df3] exI [of _ g3] exI [of _ u3]) simp
  show ?thesis
    by (rule conjI [OF a(1) conjI [OF g(1) conjI [OF a(2) conjI [OF g(2) conjI [OF a(3)
          conjI [OF g(3) conjI [OF e1 conjI [OF e2 e3]]]]]]]])
qed

section \<open>Left join\<close>

lemma merge_data_result:
  assumes "getitem geometries on = Inr lk" and "getitem data on = Inr rk"
  shows "merge_data geometries data on =
     Inr (map (\<lambda>(c, xs). (left_label data on c, take_left rk lk xs)) geometries
          @ map (\<lambda>(c, ys). (right_label geometries c, take_right rk lk ys))
              (filter (\<lambda>(c, ys). c \<noteq> on) data))"
  using assms by (simp add: merge_data_def merge_left_def getitem_eq_Inr)

lemma match_count: "length (filter (\<lambda>k. k = v) rk) = count_list rk v"
proof -
  have "(\<lambda>k. k = v) = (=) v" by auto
  then show ?thesis by (simp add: count_list_eq_length_filter)
qed

lemma take_left_count:
  "take_left rk lk xs = concat (map2 (\<lambda>v x. replicate (max 1 (count_list rk v)) x) lk xs)"
  by (simp add: take_left_def match_count)

lemma length_take_left:
  "length xs = length lk \<Longrightarrow>
     length (take_left rk lk xs) = sum_list (map (\<lambda>v. max 1 (count_list rk v)) lk)"
  unfolding take_left_count
  by (induction xs lk rule: list_induct2) simp_all

lemma matched_values_length:
  "length ys = length rk \<Longrightarrow>
     length (map snd (filter (\<lambda>p. fst p = v) (zip rk ys))) = count_list rk v"
  by (induction ys rk rule: list_induct2) auto

lemma length_take_right:
  assumes "length ys = length rk"
  shows "length (take_right rk lk ys) = sum_list (map (\<lambda>v. max 1 (count_list rk v)) lk)"
proof (induction lk)
  case Nil
  then show ?case by (simp add: take_right_def)
next
  case (Cons v lk)
  let ?ms = "map snd (filter (\<lambda>p. fst p = v) (zip rk ys))"
  have len: "length ?ms = count_list rk v"
    using assms by (rule matched_values_length)
  have "length (if ?ms = [] then [Num NaN] else ?ms) = max 1 (count_list rk v)"
  proof (cases "?ms = []")
    case True
    with len have "count_list rk v = 0" by simp
    with True show ?thesis by simp
  next
    case False
    with len have "0 < count_list rk v" by (cases "count_list rk v") auto
    with False len show ?thesis by simp
  qed
  with Cons show ?case by (simp add: take_right_def Let_def)
qed

lemma rows_at_least: "length lk \<le> sum_list (map (\<lambda>v. max 1 (count_list rk v)) lk)"
proof (induction lk)
  case Nil
  then show ?case by simp
next
  case (Cons v lk)
  have "1 \<le> max 1 (count_list rk v)" by simp
  with Cons show ?case by simp
qed

lemma distinct_count_le: "distinct rk \<Longrightarrow> count_list rk v \<le> 1"
  by (induction rk) (auto simp: count_list_0_iff)

lemma take_left_unique:
  assumes "\<forall>v \<in> set lk. count_list rk v \<le> 1" and "length xs = length lk"
  shows "take_left rk lk xs = xs"
  using assms(2,1) unfolding take_left_count
proof (induction xs lk rule: list_induct2)
  case Nil
  then show ?case by simp
next
  case (Cons x xs v lk)
  then have "max 1 (count_list rk v) = 1" by simp
  with Cons show ?case by simp
qed

lemma matched_values_distinct:
  "length ys = length rk \<Longrightarrow> distinct rk \<Longrightarrow>
     map snd (filter (\<lambda>p. fst p = v) (zip rk ys)) =
       (case map_of (zip rk ys) v of None \<Rightarrow> [] | Some y \<Rightarrow> [y])"
proof (induction ys rk rule: list_induct2)
  case Nil
  then show ?case by simp
next
  case (Cons y ys k rk)
  show ?case
  proof (cases "k = v")
    case True
    with Cons.prems have "v \<notin> set rk" by simp
    then have "filter (\<lambda>p. fst p = v) (zip rk ys) = []"
      by (auto simp: filter_empty_conv dest: set_zip_leftD)
    with True show ?thesis by simp
  next
    case False
    with Cons show ?thesis by simp
  qed
qed

lemma take_right_distinct:
  assumes "length ys = length rk" and "distinct rk"
  shows "take_right rk lk ys =
     map (\<lambda>v. case map_of (zip rk ys) v of None \<Rightarrow> Num NaN | Some y \<Rightarrow> y) lk"
proof -
  have "\<And>v. (let ms = map snd (filter (\<lambda>p. fst p = v) (zip rk ys))
              in if ms = [] then [Num NaN] else ms) =
          [case map_of (zip rk ys) v of None \<Rightarrow> Num NaN | Some y \<Rightarrow> y]"
    by (simp add: matched_values_distinct [OF assms] Let_def split: option.splits)
  then show ?thesis by (simp add: take_right_def)
qed

lemma wf_df_length: "wf_df df k \<Longrightarrow> (c, xs) \<in> set df \<Longrightarrow> length xs = k"
  by (auto simp: wf_df_def list_all_iff)

lemma getitem_mem: "getitem df c = Inr xs \<Longrightarrow> (c, xs) \<in> set df"
  by (auto simp: getitem_eq_Inr dest: map_of_SomeD)

lemma rows_unique:
  "\<forall>v \<in> set lk. count_list rk v \<le> 1 \<Longrightarrow>
     sum_list (map (\<lambda>v. max 1 (count_list rk v)) lk) = length lk"
  by (induction lk) (simp_all add: max_def)

text \<open>
  C3. For a geometry table of N rows and a metric table in which no key occurs
  twice (whatever keys it holds: a strict subset of the geometry keys is one case),
  \<^verbatim>\<open>merge_data\<close> returns a table of exactly N rows: the geometry columns are
  there as they were, row for row; every metric column is there, holding in row i
  the metric value of the row with the same key, and a missing value when no
  metric row has that key. The rows of the result are the geometry rows, so a
  metric row whose key no geometry has is in no row of the result.
\<close>

theorem merge_data_unique_keys:
  assumes "getitem geometries on = Inr lk" and "getitem data on = Inr rk"
    and "distinct rk" and "wf_df geometries N" and "wf_df data M"
  shows "\<exists>out. merge_data geometries data on = Inr out
    \<and> list_all (\<lambda>p. length (snd p) = N) out
    \<and> take (length geometries) out = map (\<lambda>(c, xs). (left_label data on c, xs)) geometries
    \<and> (on, lk) \<in> set out
    \<and> map fst (drop (length geometries) out) =
        map (right_label geometries) (filter (\<lambda>c. c \<noteq> on) (columns data))
    \<and> (\<forall>c ys. (c, ys) \<in> set data \<and> c \<noteq> on \<longrightarrow>
         (\<exists>zs. (right_label geometries c, zs) \<in> set (drop (length geometries) out)
            \<and> (\<forall>i<N. (lk ! i \<notin> set rk \<longrightarrow> zs ! i = Num NaN)
                    \<and> (\<forall>j<M. rk ! j = lk ! i \<longrightarrow> zs ! i = ys ! j))))"
proof -
  let ?L = "map (\<lambda>(c, xs). (left_label data on c, take_left rk lk xs)) geometries"
  let ?R = "map (\<lambda>(c, ys). (right_label geometries c, take_right rk lk ys))
              (filter (\<lambda>(c, ys). c \<noteq> on) data)"
  have out: "merge_data geometries data on = Inr (?L @ ?R)"
    using assms(1,2) by (rule merge_data_result)
  have lk: "length lk = N" using assms(4,1) by (rule wf_df_getitem)
  have rk: "length rk = M" using assms(5,2) by (rule wf_df_getitem)
  have uniq: "\<forall>v \<in> set lk. count_list rk v \<le> 1"
    using distinct_count_le [OF assms(3)] by blast
  have left: "\<And>c xs. (c, xs) \<in> set geometries \<Longrightarrow> take_left rk lk xs = xs"
  proof -
    fix c xs assume "(c, xs) \<in> set geometries"
    with assms(4) lk have "length xs = length lk" by (simp add: wf_df_length)
    with uniq show "take_left rk lk xs = xs" by (rule take_left_unique)
  qed
  have L: "?L = map (\<lambda>(c, xs). (left_label data on c, xs)) geometries"
    by (rule map_cong) (auto simp: left)
  have right: "\<And>c ys. (c, ys) \<in> set data \<Longrightarrow> take_right rk lk ys =
      map (\<lambda>v. case map_of (zip rk ys) v of None \<Rightarrow> Num NaN | Some y \<Rightarrow> y) lk"
  proof -
    fix c ys assume "(c, ys) \<in> set data"
    with assms(5) rk have "length ys = length rk" by (simp add: wf_df_length)
    then show "take_right rk lk ys =
        map (\<lambda>v. case map_of (zip rk ys) v of None \<Rightarrow> Num NaN | Some y \<Rightarrow> y) lk"
      using assms(3) by (rule take_right_distinct)
  qed
  have 1: "list_all (\<lambda>p. length (snd p) = N) (?L @ ?R)"
  proof -
    have "list_all (\<lambda>p. length (snd p) = N) ?L"
      unfolding L using assms(4) by (auto simp: list_all_iff wf_df_length)
    moreover have "list_all (\<lambda>p. length (snd p) = N) ?R"
      using lk by (auto simp: list_all_iff right [of _ _])
    ultimately show ?thesis by simp
  qed
  have 2: "take (length geometries) (?L @ ?R) =
      map (\<lambda>(c, xs). (left_label data on c, xs)) geometries"
    using L by simp
  have 3: "(on, lk) \<in> set (?L @ ?R)"
  proof -
    from assms(1) have "(on, lk) \<in> set geometries" by (rule getitem_mem)
    then have "(left_label data on on, lk) \<in> set (map (\<lambda>(c, xs). (left_label data on c, xs)) geometries)"
      by force
    then show ?thesis unfolding L by (simp add: left_label_def)
  qed
  have dropR: "drop (length geometries) (?L @ ?R) = ?R" by simp
  have 4: "map fst (drop (length geometries) (?L @ ?R)) =
        map (right_label geometries) (filter (\<lambda>c. c \<noteq> on) (columns data))"
    unfolding dropR columns_def by (induction data) auto
  have 5: "\<forall>c ys. (c, ys) \<in> set data \<and> c \<noteq> on \<longrightarrow>
         (\<exists>zs. (right_label geometries c, zs) \<in> set (drop (length geometries) (?L @ ?R))
            \<and> (\<forall>i<N. (lk ! i \<notin> set rk \<longrightarrow> zs ! i = Num NaN)
                    \<and> (\<forall>j<M. rk ! j = lk ! i \<longrightarrow> zs ! i = ys ! j)))"
  proof (intro allI impI)
    fix c ys assume h: "(c, ys) \<in> set data \<and> c \<noteq> on"
    let ?zs = "take_right rk lk ys"
    from h have mem: "(right_label geometries c, ?zs) \<in> set ?R" by force
    from h have "(c, ys) \<in> set data" by simp
    with assms(5) have "length ys = M" by (rule wf_df_length)
    with rk have len: "length rk = length ys" by simp
    from h have zs: "?zs = map (\<lambda>v. case map_of (zip rk ys) v of None \<Rightarrow> Num NaN | Some y \<Rightarrow> y) lk"
      by (intro right [of c]) simp
    have rows: "\<forall>i<N. (lk ! i \<notin> set rk \<longrightarrow> ?zs ! i = Num NaN)
                    \<and> (\<forall>j<M. rk ! j = lk ! i \<longrightarrow> ?zs ! i = ys ! j)"
    proof (intro allI impI conjI)
      fix i assume i: "i < N"
      then have at: "?zs ! i = (case map_of (zip rk ys) (lk ! i) of None \<Rightarrow> Num NaN | Some y \<Rightarrow> y)"
        using lk by (simp add: zs)
      {
        assume "lk ! i \<notin> set rk"
        then have "map_of (zip rk ys) (lk ! i) = None" using len by simp
        with at show "?zs ! i = Num NaN" by simp
      }
      {
        fix j assume j: "j < M" and eq: "rk ! j = lk ! i"
        from len assms(3) j rk have "map_of (zip rk ys) (rk ! j) = Some (ys ! j)"
          by (intro map_of_zip_nth) simp_all
        with at eq show "?zs ! i = ys ! j" by simp
      }
    qed
    from mem have mem': "(right_label geometries c, ?zs) \<in> set (drop (length geometries) (?L @ ?R))"
      by (simp only: dropR)
    show "\<exists>zs. (right_label geometries c, zs) \<in> set (drop (length geometries) (?L @ ?R))
            \<and> (\<forall>i<N. (lk ! i \<notin> set rk \<longrightarrow> zs ! i = Num NaN)
                    \<and> (\<forall>j<M. rk ! j = lk ! i \<longrightarrow> zs ! i = ys ! j))"
      by (rule exI [of _ ?zs], rule conjI [OF mem' rows])
  qed
  show ?thesis
    by (rule exI [of _ "?L @ ?R"],
        rule conjI [OF out conjI [OF 1 conjI [OF 2 conjI [OF 3 conjI [OF 4 5]]]]])
qed

theorem merge_data_unique_keys_witness:
  "getitem example_geometries ''GEOID'' = Inr [Str ''53029'', Str ''53033'', Str ''53061'']
   \<and> getitem example_metrics ''GEOID'' = Inr [Str ''53033'', Str ''53029'']
   \<and> distinct [Str ''53033'', Str ''53029'']
   \<and> wf_df example_geometries 3
   \<and> wf_df example_metrics 2
   \<and> merge_data example_geometries example_metrics ''GEOID'' =
       Inr [(''GEOID'', [Str ''53029'', Str ''53033'', Str ''53061'']),
            (''NAME_x'', [Str ''Island'', Str ''King'', Str ''Snohomish'']),
            (''NAME_y'', [Str ''Island County'', Str ''King County'', Num NaN]),
            (''median_income'', [Num (Fin 75000), Num (Fin 100000), Num NaN])]
   \<and> (\<exists>out. merge_data example_geometries example_metrics ''GEOID'' = Inr out
         \<and> list_all (\<lambda>p. length (snd p) = 3) out)"
proof -
  have g: "getitem example_geometries ''GEOID'' = Inr [Str ''53029'', Str ''53033'', Str ''53061'']"
    by (simp add: example_geometries_def getitem_def)
  have d: "getitem example_metrics ''GEOID'' = Inr [Str ''53033'', Str ''53029'']"
    by (simp add: example_metrics_def getitem_def)
  have u: "distinct [Str ''53033'', Str ''53029'']" by simp
  have wg: "wf_df example_geometries 3"
    by (simp add: example_geometries_def wf_df_def columns_def)
  have wd: "wf_df example_metrics 2"
    by (simp add: example_metrics_def wf_df_def columns_def)
  have run: "merge_data example_geometries example_metrics ''GEOID'' =
       Inr [(''GEOID'', [Str ''53029'', Str ''53033'', Str ''53061'']),
            (''NAME_x'', [Str ''Island'', Str ''King'', Str ''Snohomish'']),
            (''NAME_y'', [Str ''Island County'', Str ''King County'', Num NaN]),
            (''median_income'', [Num (Fin 75000), Num (Fin 100000), Num NaN])]"
    by (simp add: merge_data_def merge_left_def example_geometries_def example_metrics_def
        take_left_def take_right_def left_label_def right_label_def columns_def)
  from merge_data_unique_keys [OF g d u wg wd]
  obtain out where o: "merge_data example_geometries example_metrics ''GEOID'' = Inr out"
    and n: "list_all (\<lambda>p. length (snd p) = 3) out"
    by auto
  have e: "\<exists>out. merge_data example_geometries example_metrics ''GEOID'' = Inr out
         \<and> list_all (\<lambda>p. length (snd p) = 3) out"
    by (rule exI [of _ out], rule conjI [OF o n])
  show ?thesis
    by (rule conjI [OF g conjI [OF d conjI [OF u conjI [OF wg conjI [OF wd conjI [OF run e]]]]]])
qed

text \<open>
  C4, as the code has it. For a geometry table and a metric table whose key
  columns hold strings, as the two GEOID paths build them, \<^verbatim>\<open>merge_data\<close> never
  drops a geometry row, and it repeats a geometry row once for every metric row
  that has its key: the cells of the geometry row with key v stand max(1, k) times
  in the result, k the number of metric rows with key v, so the result has at
  least N rows. When no key of the geometry table occurs more than once in the
  metric table, every geometry row appears exactly once; metric keys that no
  geometry has change nothing.
\<close>

theorem merge_data_row_multiplicity:
  assumes "getitem geometries on = Inr lk" and "getitem data on = Inr rk"
    and "wf_df geometries N" and "wf_df data M"
    and "\<forall>k \<in> set lk \<union> set rk. \<exists>s. k = Str s"
  shows "\<exists>out. merge_data geometries data on = Inr out
    \<and> list_all (\<lambda>p. length (snd p) = sum_list (map (\<lambda>v. max 1 (count_list rk v)) lk)) out
    \<and> N \<le> sum_list (map (\<lambda>v. max 1 (count_list rk v)) lk)
    \<and> (\<forall>k<length geometries.
          snd (out ! k) =
            concat (map2 (\<lambda>v x. replicate (max 1 (count_list rk v)) x) lk (snd (geometries ! k))))
    \<and> ((\<forall>v \<in> set lk. count_list rk v \<le> 1) \<longrightarrow>
          take (length geometries) out = map (\<lambda>(c, xs). (left_label data on c, xs)) geometries
          \<and> list_all (\<lambda>p. length (snd p) = N) out)"
proof -
  let ?L = "map (\<lambda>(c, xs). (left_label data on c, take_left rk lk xs)) geometries"
  let ?R = "map (\<lambda>(c, ys). (right_label geometries c, take_right rk lk ys))
              (filter (\<lambda>(c, ys). c \<noteq> on) data)"
  let ?n = "sum_list (map (\<lambda>v. max 1 (count_list rk v)) lk)"
  have out: "merge_data geometries data on = Inr (?L @ ?R)"
    using assms(1,2) by (rule merge_data_result)
  have lk: "length lk = N" using assms(3,1) by (rule wf_df_getitem)
  have rk: "length rk = M" using assms(4,2) by (rule wf_df_getitem)
  have lenL: "\<And>c xs. (c, xs) \<in> set geometries \<Longrightarrow> length (take_left rk lk xs) = ?n"
  proof -
    fix c xs assume "(c, xs) \<in> set geometries"
    with assms(3) have "length xs = N" by (rule wf_df_length)
    with lk have "length xs = length lk" by simp
    then show "length (take_left rk lk xs) = ?n" by (rule length_take_left)
  qed
  have lenR: "\<And>c ys. (c, ys) \<in> set data \<Longrightarrow> length (take_right rk lk ys) = ?n"
  proof -
    fix c ys assume "(c, ys) \<in> set data"
    with assms(4) have "length ys = M" by (rule wf_df_length)
    with rk have "length ys = length rk" by simp
    then show "length (take_right rk lk ys) = ?n" by (rule length_take_right)
  qed
  have 1: "list_all (\<lambda>p. length (snd p) = ?n) (?L @ ?R)"
  proof -
    have "list_all (\<lambda>p. length (snd p) = ?n) ?L"
      unfolding list_all_iff using lenL by auto
    moreover have "list_all (\<lambda>p. length (snd p) = ?n) ?R"
      unfolding list_all_iff using lenR by auto
    ultimately show ?thesis by simp
  qed
  have 2: "N \<le> ?n" using rows_at_least [of lk rk] lk by simp
  have 3: "\<forall>k<length geometries. snd ((?L @ ?R) ! k) =
      concat (map2 (\<lambda>v x. replicate (max 1 (count_list rk v)) x) lk (snd (geometries ! k)))"
  proof (intro allI impI)
    fix k assume k: "k < length geometries"
    then have "(?L @ ?R) ! k = ?L ! k" by (simp add: nth_append)
    also from k have "\<dots> = (\<lambda>(c, xs). (left_label data on c, take_left rk lk xs)) (geometries ! k)"
      by simp
    finally have "snd ((?L @ ?R) ! k) = take_left rk lk (snd (geometries ! k))"
      by (simp add: case_prod_beta)
    then show "snd ((?L @ ?R) ! k) =
        concat (map2 (\<lambda>v x. replicate (max 1 (count_list rk v)) x) lk (snd (geometries ! k)))"
      by (simp only: take_left_count)
  qed
  have 4: "(\<forall>v \<in> set lk. count_list rk v \<le> 1) \<longrightarrow>
          take (length geometries) (?L @ ?R) = map (\<lambda>(c, xs). (left_label data on c, xs)) geometries
          \<and> list_all (\<lambda>p. length (snd p) = N) (?L @ ?R)"
  proof (intro impI conjI)
    assume uniq: "\<forall>v \<in> set lk. count_list rk v \<le> 1"
    have left: "\<And>c xs. (c, xs) \<in> set geometries \<Longrightarrow> take_left rk lk xs = xs"
    proof -
      fix c xs assume "(c, xs) \<in> set geometries"
      with assms(3) have "length xs = N" by (rule wf_df_length)
      with lk have "length xs = length lk" by simp
      with uniq show "take_left rk lk xs = xs" by (rule take_left_unique)
    qed
    have "?L = map (\<lambda>(c, xs). (left_label data on c, xs)) geometries"
      by (rule map_cong) (auto simp: left)
    then show "take (length geometries) (?L @ ?R) =
        map (\<lambda>(c, xs). (left_label data on c, xs)) geometries" by simp
    from uniq have "?n = length lk" by (rule rows_unique)
    with lk have "?n = N" by simp
    with 1 show "list_all (\<lambda>p. length (snd p) = N) (?L @ ?R)" by simp
  qed
  show ?thesis
    by (rule exI [of _ "?L @ ?R"], rule conjI [OF out conjI [OF 1 conjI [OF 2 conjI [OF 3 4]]]])
qed

theorem merge_data_row_multiplicity_witness:
  "getitem example_geometries ''GEOID'' = Inr [Str ''53029'', Str ''53033'', Str ''53061'']
   \<and> getitem example_duplicate_metrics ''GEOID'' = Inr [Str ''53029'', Str ''53029'', Str ''41051'']
   \<and> wf_df example_geometries 3
   \<and> wf_df example_duplicate_metrics 3
   \<and> (\<exists>out. merge_data example_geometries example_duplicate_metrics ''GEOID'' = Inr out
         \<and> list_all (\<lambda>p. length (snd p) = 4) out
         \<and> snd (out ! 1) = [Str ''Island'', Str ''Island'', Str ''King'', Str ''Snohomish''])"
proof -
  let ?lk = "[Str ''53029'', Str ''53033'', Str ''53061'']"
  let ?rk = "[Str ''53029'', Str ''53029'', Str ''41051'']"
  have g: "getitem example_geometries ''GEOID'' = Inr ?lk"
    by (simp add: example_geometries_def getitem_def)
  have d: "getitem example_duplicate_metrics ''GEOID'' = Inr ?rk"
    by (simp add: example_duplicate_metrics_def getitem_def)
  have wg: "wf_df example_geometries 3"
    by (simp add: example_geometries_def wf_df_def columns_def)
  have wd: "wf_df example_duplicate_metrics 3"
    by (simp add: example_duplicate_metrics_def wf_df_def columns_def)
  have str: "\<forall>k \<in> set ?lk \<union> set ?rk. \<exists>s. k = Str s" by simp
  have n: "sum_list (map (\<lambda>v. max 1 (count_list ?rk v)) ?lk) = 4" by simp
  have k: "(1::nat) < length example_geometries" by (simp add: example_geometries_def)
  have c: "concat (map2 (\<lambda>v x. replicate (max 1 (count_list ?rk v)) x) ?lk
        (snd (example_geometries ! 1))) = [Str ''Island'', Str ''Island'', Str ''King'', Str ''Snohomish'']"
    by (simp add: example_geometries_def)
  from merge_data_row_multiplicity [OF g d wg wd str]
  obtain out where o: "merge_data example_geometries example_duplicate_metrics ''GEOID'' = Inr out"
    and l: "list_all (\<lambda>p. length (snd p) = sum_list (map (\<lambda>v. max 1 (count_list ?rk v)) ?lk)) out"
    and r: "\<forall>k<length example_geometries. snd (out ! k) =
        concat (map2 (\<lambda>v x. replicate (max 1 (count_list ?rk v)) x) ?lk (snd (example_geometries ! k)))"
    by blast
  from l have l': "list_all (\<lambda>p. length (snd p) = 4) out" by (simp only: n)
  from r k have "snd (out ! 1) =
        concat (map2 (\<lambda>v x. replicate (max 1 (count_list ?rk v)) x) ?lk (snd (example_geometries ! 1)))"
    by blast
  then have r': "snd (out ! 1) = [Str ''Island'', Str ''Island'', Str ''King'', Str ''Snohomish'']"
    by (simp only: c)
  have e: "\<exists>out. merge_data example_geometries example_duplicate_metrics ''GEOID'' = Inr out
         \<and> list_all (\<lambda>p. length (snd p) = 4) out
         \<and> snd (out ! 1) = [Str ''Island'', Str ''Island'', Str ''King'', Str ''Snohomish'']"
    by (rule exI [of _ out], rule conjI [OF o conjI [OF l' r']])
  show ?thesis
    by (rule conjI [OF g conjI [OF d conjI [OF wg conjI [OF wd e]]]])
qed

text \<open>
  The claim as the specification states it fails when the metric table repeats a
  key: the one Island County polygon of three is twice in the result of four rows.
\<close>

theorem merge_data_duplicate_keys_counterexample:
  "wf_df example_geometries 3
   \<and> merge_data example_geometries example_duplicate_metrics ''GEOID'' =
       Inr [(''GEOID'', [Str ''53029'', Str ''53029'', Str ''53033'', Str ''53061'']),
            (''NAME'', [Str ''Island'', Str ''Island'', Str ''King'', Str ''Snohomish'']),
            (''median_income'', [Num (Fin 75000), Num (Fin 76000), Num NaN, Num NaN])]
   \<and> count_list [Str ''53029'', Str ''53029'', Str ''53033'', Str ''53061''] (Str ''53029'') = 2"
  by (simp add: merge_data_def merge_left_def example_geometries_def
      example_duplicate_metrics_def take_left_def take_right_def left_label_def
      right_label_def columns_def wf_df_def)

section \<open>Tract income cleaning\<close>

lemma map_of_select_rows:
  "map_of (select_rows keep df) c = map_option (select keep) (map_of df c)"
  by (induction df) (auto simp: select_rows_def)

lemma getitem_select_rows:
  "getitem (select_rows keep df) c =
     (case getitem df c of Inl e \<Rightarrow> Inl e | Inr xs \<Rightarrow> Inr (select keep xs))"
  by (simp add: getitem_def map_of_select_rows split: option.splits)

lemma select_Nil [simp]: "select keep [] = []"
  by (simp add: select_def)

lemma select_Nil2 [simp]: "select [] xs = []"
  by (simp add: select_def)

lemma select_Cons [simp]:
  "select (k # keep) (x # xs) = (if k then x # select keep xs else select keep xs)"
  by (simp add: select_def)

lemma select_map: "select keep (map f xs) = map f (select keep xs)"
proof (induction xs arbitrary: keep)
  case Nil
  then show ?case by simp
next
  case (Cons x xs)
  then show ?case by (cases keep) simp_all
qed

lemma select_filter: "select (map P vs) vs = filter P vs"
  by (induction vs) simp_all

lemma select_twice:
  "length xs = length vs \<Longrightarrow>
     select (map gt0 (select (map (\<lambda>v. v \<noteq> NaN) vs) vs))
       (select (map (\<lambda>v. v \<noteq> NaN) vs) xs) =
     select (map gt0 vs) xs"
  by (induction xs vs rule: list_induct2) auto

lemma isna_Num: "isna (Num v) \<longleftrightarrow> v = NaN"
  by (cases v) simp_all

lemma collect_gt0: "collect (map cell_gt0 (map Num vs)) = Inr (map gt0 vs)"
proof -
  have "map cell_gt0 (map Num vs) = map Inr (map gt0 vs)" by simp
  then show ?thesis by (simp only: collect_map_Inr)
qed

text \<open>
  The table \<^verbatim>\<open>fetch_income_data\<close> returns, in closed form: the six columns, each
  reduced to the rows whose converted income is greater than zero.
\<close>

lemma fetch_income_data_result:
  assumes wf: "wf_df df0 n"
    and names: "getitem df0 ''NAME'' = Inr names"
    and raw: "getitem df0 ''B19013_001E'' = Inr raw"
    and tr: "getitem df0 ''tract'' = Inr tr"
    and co: "getitem df0 ''county'' = Inr co"
    and st: "getitem df0 ''state'' = Inr st"
    and full: "add_columns3 df0 ''state'' ''county'' ''tract'' = Inr full"
  shows "fetch_income_data coerce (Frame df0) =
     Inr (Some
       [(''tract_name'', select (map gt0 (to_numeric coerce raw)) names),
        (''median_income'', map Num (filter gt0 (to_numeric coerce raw))),
        (''full_fips'', select (map gt0 (to_numeric coerce raw)) full),
        (''tract_fips'', select (map gt0 (to_numeric coerce raw)) tr),
        (''county_fips'', select (map gt0 (to_numeric coerce raw)) co),
        (''state_fips'', select (map gt0 (to_numeric coerce raw)) st)])"
proof -
  let ?vs = "to_numeric coerce raw"
  let ?k1 = "map (\<lambda>v. v \<noteq> NaN) ?vs"
  let ?k2 = "map gt0 (select ?k1 ?vs)"
  let ?k = "map gt0 ?vs"
  define df1 where "df1 = setitem ''tract_name'' names df0"
  define df2 where "df2 = setitem ''median_income'' (map Num ?vs) df1"
  define df3 where "df3 = setitem ''tract_fips'' tr df2"
  define df4 where "df4 = setitem ''county_fips'' co df3"
  define df5 where "df5 = setitem ''state_fips'' st df4"
  define df6 where "df6 = setitem ''full_fips'' full df5"
  define df7 where "df7 = select_rows ?k1 df6"
  define df8 where "df8 = select_rows ?k2 df7"
  have s1: "assign ''tract_name'' (\<lambda>d. getitem d ''NAME'') df0 = Inr df1"
    by (simp add: assign_def names df1_def)
  have "getitem df1 ''B19013_001E'' = Inr raw"
    by (simp add: df1_def getitem_setitem raw)
  then have s2: "assign ''median_income''
      (\<lambda>d. bind (getitem d ''B19013_001E'') (\<lambda>xs. Inr (map Num (to_numeric coerce xs)))) df1 = Inr df2"
    by (simp add: assign_def df2_def)
  have "getitem df2 ''tract'' = Inr tr"
    by (simp add: df2_def df1_def getitem_setitem tr)
  then have s3: "assign ''tract_fips'' (\<lambda>d. getitem d ''tract'') df2 = Inr df3"
    by (simp add: assign_def df3_def)
  have "getitem df3 ''county'' = Inr co"
    by (simp add: df3_def df2_def df1_def getitem_setitem co)
  then have s4: "assign ''county_fips'' (\<lambda>d. getitem d ''county'') df3 = Inr df4"
    by (simp add: assign_def df4_def)
  have "getitem df4 ''state'' = Inr st"
    by (simp add: df4_def df3_def df2_def df1_def getitem_setitem st)
  then have s5: "assign ''state_fips'' (\<lambda>d. getitem d ''state'') df4 = Inr df5"
    by (simp add: assign_def df5_def)
  have "getitem df5 ''state'' = Inr st" "getitem df5 ''county'' = Inr co"
    "getitem df5 ''tract'' = Inr tr"
    by (simp_all add: df5_def df4_def df3_def df2_def df1_def getitem_setitem st co tr)
  moreover from full st co tr have "bind (series_add st co) (\<lambda>xy. series_add xy tr) = Inr full"
    by (simp add: add_columns3_def add_columns_def)
  ultimately have "add_columns3 df5 ''state'' ''county'' ''tract'' = Inr full"
    by (simp add: add_columns3_def add_columns_def)
  then have s6: "assign ''full_fips'' (\<lambda>d. add_columns3 d ''state'' ''county'' ''tract'') df5 = Inr df6"
    by (simp add: assign_def df6_def)
  have cols6: "getitem df6 ''tract_name'' = Inr names"
    "getitem df6 ''median_income'' = Inr (map Num ?vs)"
    "getitem df6 ''full_fips'' = Inr full"
    "getitem df6 ''tract_fips'' = Inr tr"
    "getitem df6 ''county_fips'' = Inr co"
    "getitem df6 ''state_fips'' = Inr st"
    by (simp_all add: df6_def df5_def df4_def df3_def df2_def df1_def getitem_setitem)
  have k1: "map (\<lambda>x. \<not> isna x) (map Num ?vs) = ?k1"
    by (simp add: isna_Num)
  have s7: "dropna ''median_income'' df6 = Inr df7"
    unfolding dropna_def cols6 bind_Inr k1 df7_def ..
  have inc7: "getitem df7 ''median_income'' = Inr (map Num (select ?k1 ?vs))"
    by (simp add: df7_def getitem_select_rows cols6 select_map)
  have s8: "filter_positive ''median_income'' df7 = Inr df8"
    unfolding filter_positive_def inc7 bind_Inr collect_gt0 df8_def ..
  have len: "length names = length ?vs" "length full = length ?vs" "length tr = length ?vs"
    "length co = length ?vs" "length st = length ?vs"
  proof -
    from wf raw have r: "length raw = n" by (rule wf_df_getitem)
    from wf names r show "length names = length ?vs" by (simp add: wf_df_getitem)
    from wf tr r show t: "length tr = length ?vs" by (simp add: wf_df_getitem)
    from wf co r show c: "length co = length ?vs" by (simp add: wf_df_getitem)
    from wf st r show s: "length st = length ?vs" by (simp add: wf_df_getitem)
    from full obtain xy where xy: "series_add st co = Inr xy" and f: "series_add xy tr = Inr full"
      using st co tr by (auto simp: add_columns3_def add_columns_def bind_eq_Inr)
    from series_add_nth(1) [OF xy] s c have "length xy = length ?vs" by simp
    with series_add_nth(1) [OF f] t show "length full = length ?vs" by simp
  qed
  have sel: "\<And>xs. length xs = length ?vs \<Longrightarrow> select ?k2 (select ?k1 xs) = select ?k xs"
    by (rule select_twice)
  have selv: "select ?k2 (select ?k1 ?vs) = filter gt0 ?vs"
  proof -
    have "select ?k2 (select ?k1 ?vs) = select ?k ?vs" by (rule select_twice) simp
    then show ?thesis by (simp only: select_filter)
  qed
  have cols8: "getitem df8 ''tract_name'' = Inr (select ?k names)"
    "getitem df8 ''median_income'' = Inr (map Num (filter gt0 ?vs))"
    "getitem df8 ''full_fips'' = Inr (select ?k full)"
    "getitem df8 ''tract_fips'' = Inr (select ?k tr)"
    "getitem df8 ''county_fips'' = Inr (select ?k co)"
    "getitem df8 ''state_fips'' = Inr (select ?k st)"
    unfolding df8_def df7_def
    by (simp_all only: getitem_select_rows cols6 sum.case sel [OF len(1)] sel [OF len(2)]
        sel [OF len(3)] sel [OF len(4)] sel [OF len(5)] select_map selv)
  have s9: "select_columns [''tract_name'', ''median_income'', ''full_fips'',
                   ''tract_fips'', ''county_fips'', ''state_fips''] df8 =
     Inr [(''tract_name'', select ?k names),
        (''median_income'', map Num (filter gt0 ?vs)),
        (''full_fips'', select ?k full),
        (''tract_fips'', select ?k tr),
        (''county_fips'', select ?k co),
        (''state_fips'', select ?k st)]"
    by (simp add: select_columns_def cols8)
  show ?thesis
    unfolding fetch_income_data_def
    by (simp only: response.case s1 s2 s3 s4 s5 s6 s7 s8 s9 bind_Inr)
qed

lemma zip_as_map:
  "length xs = length ys \<Longrightarrow> zip xs ys = map (\<lambda>i. (xs ! i, ys ! i)) [0..<length ys]"
  by (rule nth_equalityI) simp_all

lemma select_indices:
  assumes "length xs = length keep"
  shows "select keep xs = map ((!) xs) (filter ((!) keep) [0..<length keep])"
proof -
  have "select keep xs = map fst (filter snd (map (\<lambda>i. (xs ! i, keep ! i)) [0..<length keep]))"
    unfolding select_def by (simp only: zip_as_map [OF assms])
  also have "\<dots> = map ((!) xs) (filter ((!) keep) [0..<length keep])"
    by (simp add: filter_map o_def)
  finally show ?thesis .
qed

text \<open>
  The returned table by row numbers: its rows are the rows of the answer, in
  order, at which the converted income is greater than zero, and every column
  holds at such a row what the answer (or the concatenation of its three codes)
  holds there.
\<close>

lemma fetch_income_data_rows:
  assumes run: "fetch_income_data coerce (Frame df0) = Inr (Some out)" and wf: "wf_df df0 n"
    and names: "getitem df0 ''NAME'' = Inr names"
    and raw: "getitem df0 ''B19013_001E'' = Inr raw"
    and tr: "getitem df0 ''tract'' = Inr tr"
    and co: "getitem df0 ''county'' = Inr co"
    and st: "getitem df0 ''state'' = Inr st"
    and full: "add_columns3 df0 ''state'' ''county'' ''tract'' = Inr full"
  shows "out =
       [(''tract_name'', map ((!) names) (filter (\<lambda>i. gt0 (coerce raw i)) [0..<n])),
        (''median_income'', map (\<lambda>i. Num (coerce raw i)) (filter (\<lambda>i. gt0 (coerce raw i)) [0..<n])),
        (''full_fips'', map ((!) full) (filter (\<lambda>i. gt0 (coerce raw i)) [0..<n])),
        (''tract_fips'', map ((!) tr) (filter (\<lambda>i. gt0 (coerce raw i)) [0..<n])),
        (''county_fips'', map ((!) co) (filter (\<lambda>i. gt0 (coerce raw i)) [0..<n])),
        (''state_fips'', map ((!) st) (filter (\<lambda>i. gt0 (coerce raw i)) [0..<n]))]"
proof -
  let ?vs = "to_numeric coerce raw"
  let ?k = "map gt0 ?vs"
  let ?rows = "filter (\<lambda>i. gt0 (coerce raw i)) [0..<n]"
  from wf raw have r: "length raw = n" by (rule wf_df_getitem)
  then have k: "length ?k = n" by simp
  have rows: "filter ((!) ?k) [0..<length ?k] = ?rows"
    unfolding k using r by (intro filter_cong) simp_all
  have len: "length names = n" "length tr = n" "length co = n" "length st = n"
    using wf names tr co st by (auto dest: wf_df_getitem)
  have lenf: "length full = n"
  proof -
    from full obtain xy where xy: "series_add st co = Inr xy" and f: "series_add xy tr = Inr full"
      using st co tr by (auto simp: add_columns3_def add_columns_def bind_eq_Inr)
    from series_add_nth(1) [OF xy] len have "length xy = n" by simp
    with series_add_nth(1) [OF f] len show ?thesis by simp
  qed
  have sel: "\<And>xs. length xs = n \<Longrightarrow> select ?k xs = map ((!) xs) ?rows"
  proof -
    fix xs :: "'a list" assume "length xs = n"
    with k have "length xs = length ?k" by simp
    from select_indices [OF this] show "select ?k xs = map ((!) xs) ?rows"
      by (simp only: rows)
  qed
  have inc: "map Num (filter gt0 ?vs) = map (\<lambda>i. Num (coerce raw i)) ?rows"
  proof -
    have "map Num (filter gt0 ?vs) = select ?k (map Num ?vs)"
      by (simp only: select_map select_filter)
    also have "\<dots> = map ((!) (map Num ?vs)) ?rows"
      using r by (intro sel) simp
    also have "\<dots> = map (\<lambda>i. Num (coerce raw i)) ?rows"
      using r by (intro map_cong) simp_all
    finally show ?thesis .
  qed
  from fetch_income_data_result [OF wf names raw tr co st full] run
  show ?thesis
    by (simp only: sum.inject option.inject inc sel [OF len(1)] sel [OF lenf] sel [OF len(2)]
        sel [OF len(3)] sel [OF len(4)])
qed

lemma example_income_columns:
  "getitem example_income_table ''NAME'' =
      Inr [Str ''Tract 9701'', Str ''Tract 9702'', Str ''Tract 9703'', Str ''Tract 9704'']"
  "getitem example_income_table ''B19013_001E'' =
      Inr [Str ''75000'', Str ''0'', Str ''-666666666'', Str ''N/A'']"
  "getitem example_income_table ''tract'' =
      Inr [Str ''970100'', Str ''970200'', Str ''970300'', Str ''970400'']"
  "getitem example_income_table ''county'' = Inr [Str ''029'', Str ''029'', Str ''029'', Str ''029'']"
  "getitem example_income_table ''state'' = Inr [Str ''53'', Str ''53'', Str ''53'', Str ''53'']"
  "add_columns3 example_income_table ''state'' ''county'' ''tract'' =
      Inr [Str ''53029970100'', Str ''53029970200'', Str ''53029970300'', Str ''53029970400'']"
  by (simp_all add: example_income_table_def getitem_def add_columns3_def add_columns_def
      series_add_def)

lemma example_income_wf: "wf_df example_income_table 4"
  by (simp add: example_income_table_def wf_df_def columns_def)

lemma example_income_values:
  "decimal_coerce [Str ''75000'', Str ''0'', Str ''-666666666'', Str ''N/A''] 0 = Fin 75000"
  "decimal_coerce [Str ''75000'', Str ''0'', Str ''-666666666'', Str ''N/A''] 1 = Fin 0"
  "decimal_coerce [Str ''75000'', Str ''0'', Str ''-666666666'', Str ''N/A''] 2 = Fin (- 666666666)"
  "decimal_coerce [Str ''75000'', Str ''0'', Str ''-666666666'', Str ''N/A''] 3 = NaN"
  by (simp_all add: decimal_coerce_def decimal_examples)

lemma example_income_run:
  "fetch_income_data decimal_coerce (Frame example_income_table) = Inr (Some example_income_cleaned)"
proof -
  have nums: "to_numeric decimal_coerce [Str ''75000'', Str ''0'', Str ''-666666666'', Str ''N/A''] =
      [Fin 75000, Fin 0, Fin (- 666666666), NaN]"
    by (simp add: to_numeric_decimal decimal_examples)
  show ?thesis
    unfolding fetch_income_data_result [OF example_income_wf example_income_columns(1,2,3,4,5,6)]
      nums example_income_cleaned_def
    by simp
qed

lemma example_income_rows:
  "filter (\<lambda>i. gt0 (decimal_coerce [Str ''75000'', Str ''0'', Str ''-666666666'', Str ''N/A''] i))
     [0..<4] = [0]"
  by (simp add: upt_rec decimal_coerce_def decimal_examples)

text \<open>
  C10. The table that \<^verbatim>\<open>fetch_income_data\<close> of the tract-level script returns
  is made of the rows of the answer, in order, at which the converted income is
  greater than zero: each of its six columns holds, row for row, the name, the
  income, the concatenated codes and the three codes of exactly those rows. A row
  whose value is a number less than or equal to zero, and so a row whose value is
  exactly 0, is none of them: it is excluded from the returned table although 0 is
  no suppression sentinel.
\<close>

theorem tract_cleaning_drops_nonpositive:
  assumes "fetch_income_data coerce (Frame df0) = Inr (Some out)" and "wf_df df0 n"
    and "getitem df0 ''NAME'' = Inr names"
    and "getitem df0 ''B19013_001E'' = Inr raw"
    and "getitem df0 ''tract'' = Inr tr"
    and "getitem df0 ''county'' = Inr co"
    and "getitem df0 ''state'' = Inr st"
    and "add_columns3 df0 ''state'' ''county'' ''tract'' = Inr full"
  shows "\<exists>rows. rows = filter (\<lambda>i. gt0 (coerce raw i)) [0..<n]
    \<and> out =
        [(''tract_name'', map ((!) names) rows),
         (''median_income'', map (\<lambda>i. Num (coerce raw i)) rows),
         (''full_fips'', map ((!) full) rows),
         (''tract_fips'', map ((!) tr) rows),
         (''county_fips'', map ((!) co) rows),
         (''state_fips'', map ((!) st) rows)]
    \<and> (\<forall>i<n. (\<exists>q. coerce raw i = Fin q \<and> q \<le> 0) \<or> coerce raw i = NegZero \<longrightarrow> i \<notin> set rows)
    \<and> (\<forall>i<n. coerce raw i = Fin 0 \<longrightarrow> i \<notin> set rows)
    \<and> (\<forall>i \<in> set rows. i < n \<and> gt0 (coerce raw i) \<and> coerce raw i \<noteq> Fin 0)"
proof -
  let ?rows = "filter (\<lambda>i. gt0 (coerce raw i)) [0..<n]"
  note out = fetch_income_data_rows [OF assms]
  have 1: "\<forall>i<n. (\<exists>q. coerce raw i = Fin q \<and> q \<le> 0) \<or> coerce raw i = NegZero \<longrightarrow> i \<notin> set ?rows"
    by auto
  have 2: "\<forall>i<n. coerce raw i = Fin 0 \<longrightarrow> i \<notin> set ?rows"
    by auto
  have 3: "\<forall>i \<in> set ?rows. i < n \<and> gt0 (coerce raw i) \<and> coerce raw i \<noteq> Fin 0"
    by auto
  show ?thesis
    by (rule exI [of _ ?rows], rule conjI [OF refl conjI [OF out conjI [OF 1 conjI [OF 2 3]]]])
qed

theorem tract_cleaning_drops_nonpositive_witness:
  "fetch_income_data decimal_coerce (Frame example_income_table) = Inr (Some example_income_cleaned)
   \<and> wf_df example_income_table 4
   \<and> getitem example_income_table ''B19013_001E'' =
       Inr [Str ''75000'', Str ''0'', Str ''-666666666'', Str ''N/A'']
   \<and> decimal_coerce [Str ''75000'', Str ''0'', Str ''-666666666'', Str ''N/A''] 1 = Fin 0
   \<and> (\<exists>rows. rows = [0]
        \<and> example_income_cleaned =
            [(''tract_name'',
                map ((!) [Str ''Tract 9701'', Str ''Tract 9702'', Str ''Tract 9703'', Str ''Tract 9704'']) rows),
             (''median_income'',
                map (\<lambda>i. Num (decimal_coerce
                       [Str ''75000'', Str ''0'', Str ''-666666666'', Str ''N/A''] i)) rows),
             (''full_fips'',
                map ((!) [Str ''53029970100'', Str ''53029970200'', Str ''53029970300'',
                          Str ''53029970400'']) rows),
             (''tract_fips'',
                map ((!) [Str ''970100'', Str ''970200'', Str ''970300'', Str ''970400'']) rows),
             (''county_fips'', map ((!) [Str ''029'', Str ''029'', Str ''029'', Str ''029'']) rows),
             (''state_fips'', map ((!) [Str ''53'', Str ''53'', Str ''53'', Str ''53'']) rows)]
        \<and> 1 \<notin> set rows)"
proof -
  let ?raw = "[Str ''75000'', Str ''0'', Str ''-666666666'', Str ''N/A'']"
  note c = example_income_columns
  have one: "(1::nat) < 4" by simp
  from tract_cleaning_drops_nonpositive
    [OF example_income_run example_income_wf c(1) c(2) c(3) c(4) c(5) c(6)]
  obtain rows where r: "rows = filter (\<lambda>i. gt0 (decimal_coerce ?raw i)) [0..<4]"
    and o: "example_income_cleaned =
        [(''tract_name'',
            map ((!) [Str ''Tract 9701'', Str ''Tract 9702'', Str ''Tract 9703'', Str ''Tract 9704'']) rows),
         (''median_income'', map (\<lambda>i. Num (decimal_coerce ?raw i)) rows),
         (''full_fips'',
            map ((!) [Str ''53029970100'', Str ''53029970200'', Str ''53029970300'',
                      Str ''53029970400'']) rows),
         (''tract_fips'',
            map ((!) [Str ''970100'', Str ''970200'', Str ''970300'', Str ''970400'']) rows),
         (''county_fips'', map ((!) [Str ''029'', Str ''029'', Str ''029'', Str ''029'']) rows),
         (''state_fips'', map ((!) [Str ''53'', Str ''53'', Str ''53'', Str ''53'']) rows)]"
    and z: "\<forall>i<4. decimal_coerce ?raw i = Fin 0 \<longrightarrow> i \<notin> set rows"
    by blast
  from r have r': "rows = [0]" by (simp only: example_income_rows)
  from z one example_income_values(2) have n: "1 \<notin> set rows" by blast
  have e: "\<exists>rows. rows = [0]
        \<and> example_income_cleaned =
            [(''tract_name'',
                map ((!) [Str ''Tract 9701'', Str ''Tract 9702'', Str ''Tract 9703'', Str ''Tract 9704'']) rows),
             (''median_income'', map (\<lambda>i. Num (decimal_coerce ?raw i)) rows),
             (''full_fips'',
                map ((!) [Str ''53029970100'', Str ''53029970200'', Str ''53029970300'',
                          Str ''53029970400'']) rows),
             (''tract_fips'',
                map ((!) [Str ''970100'', Str ''970200'', Str ''970300'', Str ''970400'']) rows),
             (''county_fips'', map ((!) [Str ''029'', Str ''029'', Str ''029'', Str ''029'']) rows),
             (''state_fips'', map ((!) [Str ''53'', Str ''53'', Str ''53'', Str ''53'']) rows)]
        \<and> 1 \<notin> set rows"
    by (rule exI [of _ rows], rule conjI [OF r' conjI [OF o n]])
  show ?thesis
    by (rule conjI [OF example_income_run conjI [OF example_income_wf conjI [OF c(2)
          conjI [OF example_income_values(2) e]]]])
qed

text \<open>
  C5, as the code has it. In the tract-level cleaning step a row whose raw value
  converts to the suppression sentinel -666666666 is removed exactly as a row
  whose value converts to no number: the returned table is made of the rows at
  which the converted income is greater than zero, each of its six columns
  holding the cells of exactly those rows, and a sentinel row or a missing row is
  none of them.
\<close>

theorem tract_cleaning_drops_sentinel:
  assumes "fetch_income_data coerce (Frame df0) = Inr (Some out)" and "wf_df df0 n"
    and "getitem df0 ''NAME'' = Inr names"
    and "getitem df0 ''B19013_001E'' = Inr raw"
    and "getitem df0 ''tract'' = Inr tr"
    and "getitem df0 ''county'' = Inr co"
    and "getitem df0 ''state'' = Inr st"
    and "add_columns3 df0 ''state'' ''county'' ''tract'' = Inr full"
  shows "\<exists>rows. rows = filter (\<lambda>i. gt0 (coerce raw i)) [0..<n]
    \<and> out =
        [(''tract_name'', map ((!) names) rows),
         (''median_income'', map (\<lambda>i. Num (coerce raw i)) rows),
         (''full_fips'', map ((!) full) rows),
         (''tract_fips'', map ((!) tr) rows),
         (''county_fips'', map ((!) co) rows),
         (''state_fips'', map ((!) st) rows)]
    \<and> (\<forall>i<n. coerce raw i = Fin (- 666666666) \<or> coerce raw i = NaN \<longrightarrow> i \<notin> set rows)
    \<and> (\<forall>i \<in> set rows. coerce raw i \<noteq> Fin (- 666666666) \<and> coerce raw i \<noteq> NaN)"
proof -
  let ?rows = "filter (\<lambda>i. gt0 (coerce raw i)) [0..<n]"
  note out = fetch_income_data_rows [OF assms]
  have 1: "\<forall>i<n. coerce raw i = Fin (- 666666666) \<or> coerce raw i = NaN \<longrightarrow> i \<notin> set ?rows"
    by auto
  have 2: "\<forall>i \<in> set ?rows. coerce raw i \<noteq> Fin (- 666666666) \<and> coerce raw i \<noteq> NaN"
    by auto
  show ?thesis
    by (rule exI [of _ ?rows], rule conjI [OF refl conjI [OF out conjI [OF 1 2]]])
qed

theorem tract_cleaning_drops_sentinel_witness:
  "fetch_income_data decimal_coerce (Frame example_income_table) = Inr (Some example_income_cleaned)
   \<and> wf_df example_income_table 4
   \<and> getitem example_income_table ''B19013_001E'' =
       Inr [Str ''75000'', Str ''0'', Str ''-666666666'', Str ''N/A'']
   \<and> decimal_coerce [Str ''75000'', Str ''0'', Str ''-666666666'', Str ''N/A''] 2 = Fin (- 666666666)
   \<and> decimal_coerce [Str ''75000'', Str ''0'', Str ''-666666666'', Str ''N/A''] 3 = NaN
   \<and> (\<exists>rows. rows = [0]
        \<and> example_income_cleaned =
            [(''tract_name'',
                map ((!) [Str ''Tract 9701'', Str ''Tract 9702'', Str ''Tract 9703'', Str ''Tract 9704'']) rows),
             (''median_income'',
                map (\<lambda>i. Num (decimal_coerce
                       [Str ''75000'', Str ''0'', Str ''-666666666'', Str ''N/A''] i)) rows),
             (''full_fips'',
                map ((!) [Str ''53029970100'', Str ''53029970200'', Str ''53029970300'',
                          Str ''53029970400'']) rows),
             (''tract_fips'',
                map ((!) [Str ''970100'', Str ''970200'', Str ''970300'', Str ''970400'']) rows),
             (''county_fips'', map ((!) [Str ''029'', Str ''029'', Str ''029'', Str ''029'']) rows),
             (''state_fips'', map ((!) [Str ''53'', Str ''53'', Str ''53'', Str ''53'']) rows)]
        \<and> 2 \<notin> set rows \<and> 3 \<notin> set rows)"
proof -
  let ?raw = "[Str ''75000'', Str ''0'', Str ''-666666666'', Str ''N/A'']"
  note c = example_income_columns
  from tract_cleaning_drops_sentinel
    [OF example_income_run example_income_wf c(1) c(2) c(3) c(4) c(5) c(6)]
  obtain rows where r: "rows = filter (\<lambda>i. gt0 (decimal_coerce ?raw i)) [0..<4]"
    and o: "example_income_cleaned =
        [(''tract_name'',
            map ((!) [Str ''Tract 9701'', Str ''Tract 9702'', Str ''Tract 9703'', Str ''Tract 9704'']) rows),
         (''median_income'', map (\<lambda>i. Num (decimal_coerce ?raw i)) rows),
         (''full_fips'',
            map ((!) [Str ''53029970100'', Str ''53029970200'', Str ''53029970300'',
                      Str ''53029970400'']) rows),
         (''tract_fips'',
            map ((!) [Str ''970100'', Str ''970200'', Str ''970300'', Str ''970400'']) rows),
         (''county_fips'', map ((!) [Str ''029'', Str ''029'', Str ''029'', Str ''029'']) rows),
         (''state_fips'', map ((!) [Str ''53'', Str ''53'', Str ''53'', Str ''53'']) rows)]"
    and z: "\<forall>i<4. decimal_coerce ?raw i = Fin (- 666666666) \<or> decimal_coerce ?raw i = NaN
        \<longrightarrow> i \<notin> set rows"
    by blast
  from r have r': "rows = [0]" by (simp only: example_income_rows)
  have "(2::nat) < 4" by simp
  with z example_income_values(3) have n2: "2 \<notin> set rows" by blast
  have "(3::nat) < 4" by simp
  with z example_income_values(4) have n3: "3 \<notin> set rows" by blast
  have e: "\<exists>rows. rows = [0]
        \<and> example_income_cleaned =
            [(''tract_name'',
                map ((!) [Str ''Tract 9701'', Str ''Tract 9702'', Str ''Tract 9703'', Str ''Tract 9704'']) rows),
             (''median_income'', map (\<lambda>i. Num (decimal_coerce ?raw i)) rows),
             (''full_fips'',
                map ((!) [Str ''53029970100'', Str ''53029970200'', Str ''53029970300'',
                          Str ''53029970400'']) rows),
             (''tract_fips'',
                map ((!) [Str ''970100'', Str ''970200'', Str ''970300'', Str ''970400'']) rows),
             (''county_fips'', map ((!) [Str ''029'', Str ''029'', Str ''029'', Str ''029'']) rows),
             (''state_fips'', map ((!) [Str ''53'', Str ''53'', Str ''53'', Str ''53'']) rows)]
        \<and> 2 \<notin> set rows \<and> 3 \<notin> set rows"
    by (rule exI [of _ rows], rule conjI [OF r' conjI [OF o conjI [OF n2 n3]]])
  show ?thesis
    by (rule conjI [OF example_income_run conjI [OF example_income_wf conjI [OF c(2)
          conjI [OF example_income_values(3) conjI [OF example_income_values(4) e]]]]])
qed

text \<open>
  The claim as the specification states it fails in the calculator, which has no
  such filter: the sentinel over 2 gives the negative percentage -33333333300, a
  number and not a missing value, where a text that is no number gives a missing
  value.
\<close>

theorem calculate_percentage_sentinel_counterexample:
  "calculate_percentage decimal_coerce exact
     [(''num'', [Str ''-666666666'', Str ''N/A'']), (''den'', [Str ''2'', Str ''2''])]
     ''num'' ''den'' ''pct'' =
   Inr [(''num'', [Str ''-666666666'', Str ''N/A'']), (''den'', [Str ''2'', Str ''2'']),
        (''pct'', [Num (Fin (- 33333333300)), Num NaN])]
   \<and> \<not> isna (Num (Fin (- 33333333300)))
   \<and> isna (Num NaN)"
  by (simp add: calculate_percentage_def assign_def getitem_def to_numeric_decimal
      decimal_examples float_div_Fin float_mul_Fin exact_def)

end
